theory Spec2Isabelle
  imports Complex_Main
begin

section \<open>Python values used by train\_angle.py\<close>

text \<open>
  Texts are \<open>string\<close>s (lists of 8-bit characters). \<open>isspace\<close> lists the characters
  below 256 that Python's \<open>str.isspace\<close> accepts: tab, line feed, vertical tab, form feed,
  carriage return, the four separators 0x1C..0x1F, the space, NEL (0x85) and the
  no-break space (0xA0). \<open>str.strip()\<close> and \<open>str.split()\<close> without arguments are
  defined from it.
\<close>

definition isspace :: "char \<Rightarrow> bool" where
  "isspace c = ((of_char c :: nat) \<in> set [9, 10, 11, 12, 13, 28, 29, 30, 31, 32, 133, 160])"

definition strip :: "string \<Rightarrow> string" where
  "strip s = rev (dropWhile isspace (rev (dropWhile isspace s)))"

text \<open>
  \<open>s.split()\<close>: the maximal runs of non-space characters, in order. \<open>split_run w s\<close>
  scans \<open>s\<close> with the current run \<open>w\<close> collected so far.
\<close>

fun split_run :: "string \<Rightarrow> string \<Rightarrow> string list" where
  "split_run w [] = (if w = [] then [] else [w])"
| "split_run w (c # cs) =
     (if isspace c then (if w = [] then split_run [] cs else w # split_run [] cs)
      else split_run (w @ [c]) cs)"

definition split_ws :: "string \<Rightarrow> string list" where
  "split_ws s = split_run [] s"

text \<open>
  A Python number is an \<open>int\<close> or a \<open>float\<close>; finite floats are modelled by the reals
  they denote. \<open>py_float\<close> is \<open>float(x)\<close>, \<open>is_zero\<close> is \<open>x == 0\<close>. On a float
  \<open>float(x)\<close> is the identity; on an int it is modelled as exact, which is Python's
  result for every int of magnitude up to \<open>2^53\<close> (beyond that Python rounds to the
  nearest float and raises \<open>OverflowError\<close> from about \<open>2^1024\<close> on; such scores are
  outside the model).
\<close>

datatype number = PyInt int | PyFloat real

fun py_float :: "number \<Rightarrow> real" where
  "py_float (PyInt i) = of_int i"
| "py_float (PyFloat r) = r"

fun is_zero :: "number \<Rightarrow> bool" where
  "is_zero (PyInt i) = (i = 0)"
| "is_zero (PyFloat r) = (r = 0)"

text \<open>\<open>str(i)\<close> for an \<open>int\<close>: an optional minus sign and the decimal digits.\<close>

fun digits :: "nat \<Rightarrow> string" where
  "digits n =
     (if n < 10 then [''0123456789'' ! n]
      else digits (n div 10) @ [''0123456789'' ! (n mod 10)])"

declare digits.simps [simp del]

definition str_int :: "int \<Rightarrow> string" where
  "str_int i = (if i < 0 then CHR ''-'' # digits (nat (- i)) else digits (nat i))"

text \<open>\<open>d.get(k, default)\<close> on a dict given as an association list.\<close>

definition dict_get :: "('k \<times> 'v) list \<Rightarrow> 'k \<Rightarrow> 'v \<Rightarrow> 'v" where
  "dict_get d k dflt = (case map_of d k of Some v \<Rightarrow> v | None \<Rightarrow> dflt)"

text \<open>\<open>xs[:n]\<close>: a negative bound counts from the end of the list.\<close>

definition slice_to :: "'a list \<Rightarrow> int \<Rightarrow> 'a list" where
  "slice_to xs n = (if n < 0 then take (nat (int (length xs) + n)) xs else take (nat n) xs)"

datatype error =
    AssertionError
  | KeyError string
  | NameError string
  | ValueError string
  | NotImplementedError
  | FileNotFoundError string
  | JSONDecodeError string
  | ExternalError string

text \<open>A list comprehension whose element expression may raise: the first error wins.\<close>

fun comprehension :: "('a \<Rightarrow> error + 'b) \<Rightarrow> 'a list \<Rightarrow> error + 'b list" where
  "comprehension f [] = Inr []"
| "comprehension f (x # xs) =
     (case f x of
        Inl e \<Rightarrow> Inl e
      | Inr y \<Rightarrow> (case comprehension f xs of Inl e \<Rightarrow> Inl e | Inr ys \<Rightarrow> Inr (y # ys)))"

section \<open>Records and rows\<close>

text \<open>
  The normalized record \<open>{'text1': ..., 'text2': ..., 'label': ...}\<close>; the C-STS loader
  adds \<open>'condition'\<close>.
\<close>

record sample =
  text1 :: string
  text2 :: string
  label :: number

record csts_sample = sample +
  condition :: string

text \<open>
  Rows of the hub datasets, with the typed columns of their schemas: the STS benchmark
  datasets have \<open>sentence1\<close>, \<open>sentence2\<close> and a numeric \<open>score\<close>; the SetFit datasets
  (MRPC, QQP, QNLI, RTE) have \<open>text1\<close>, \<open>text2\<close> and an integer \<open>label\<close>. The lines of the
  distilled STS-B JSONL files have the columns of an STS row. \<open>obj[col]\<close> on a column the
  row does not have raises \<open>KeyError\<close>.
\<close>

datatype hub_row =
    StsRow string string number
  | GlueRow string string int

fun getitem_text :: "hub_row \<Rightarrow> string \<Rightarrow> error + string" where
  "getitem_text (StsRow s1 s2 sc) col =
     (if col = ''sentence1'' then Inr s1 else if col = ''sentence2'' then Inr s2
      else Inl (KeyError col))"
| "getitem_text (GlueRow t1 t2 l) col =
     (if col = ''text1'' then Inr t1 else if col = ''text2'' then Inr t2
      else Inl (KeyError col))"

fun getitem_score :: "hub_row \<Rightarrow> error + number" where
  "getitem_score (StsRow s1 s2 sc) = Inr sc"
| "getitem_score (GlueRow t1 t2 l) = Inl (KeyError ''score'')"

fun getitem_label :: "hub_row \<Rightarrow> error + int" where
  "getitem_label (StsRow s1 s2 sc) = Inl (KeyError ''label'')"
| "getitem_label (GlueRow t1 t2 l) = Inr l"

section \<open>Task resolution and the hub loader \<open>load_data\<close>\<close>

text \<open>
  \<open>TASK_MAPPING\<close>: the value for \<open>NLI-STS\<close> is a plain string, the others are 1-tuples.
  \<open>star\<close> is the argument list that \<open>load_dataset(*task_name)\<close> passes: unpacking a
  string yields its characters.
\<close>

datatype task_source = Name string | Tuple "string list"

definition TASK_MAPPING :: "(string \<times> task_source) list" where
  "TASK_MAPPING =
     [(''NLI-STS'', Name ''nli-sts''),
      (''STS-B'', Tuple [''mteb/stsbenchmark-sts'']),
      (''MRPC'', Tuple [''SetFit/mrpc'']),
      (''QQP'', Tuple [''SetFit/qqp'']),
      (''QNLI'', Tuple [''SetFit/qnli'']),
      (''RTE'', Tuple [''SetFit/rte''])]"

fun star :: "task_source \<Rightarrow> string list" where
  "star (Name s) = map (\<lambda>c. [c]) s"
| "star (Tuple xs) = xs"

text \<open>
  The external \<open>load_dataset(args...)[split_name]\<close>: given the positional arguments and
  the split name it yields the rows of the split, or fails.
\<close>

type_synonym hub = "string list \<Rightarrow> string \<Rightarrow> error + hub_row list"

definition columns :: "string \<Rightarrow> string \<times> string" where
  "columns task =
     (if task \<in> set [''MRPC'', ''QQP'', ''QNLI'', ''RTE''] then (''text1'', ''text2'')
      else (''sentence1'', ''sentence2''))"

definition label_mapping :: "string \<Rightarrow> (string \<times> int) list" where
  "label_mapping task =
     (if task \<in> set [''QNLI'', ''RTE''] then [(''1'', 0), (''0'', 1)] else [])"

text \<open>\<open>int(label_mapping.get(str(obj['label']), obj['label']))\<close> on an integer label.\<close>

definition remap_label :: "string \<Rightarrow> int \<Rightarrow> int" where
  "remap_label task l = dict_get (label_mapping task) (str_int l) l"

definition make_label :: "string \<Rightarrow> hub_row \<Rightarrow> error + number" where
  "make_label task obj =
     (if task = ''STS-B'' then
        (case getitem_score obj of Inl e \<Rightarrow> Inl e | Inr sc \<Rightarrow> Inr (PyFloat (py_float sc)))
      else
        (case getitem_label obj of Inl e \<Rightarrow> Inl e | Inr l \<Rightarrow> Inr (PyInt (remap_label task l))))"

definition make_sample :: "string \<Rightarrow> hub_row \<Rightarrow> error + sample" where
  "make_sample task obj =
     (case getitem_text obj (fst (columns task)) of
        Inl e \<Rightarrow> Inl e
      | Inr t1 \<Rightarrow>
        (case getitem_text obj (snd (columns task)) of
           Inl e \<Rightarrow> Inl e
         | Inr t2 \<Rightarrow>
           (case make_label task obj of
              Inl e \<Rightarrow> Inl e
            | Inr lb \<Rightarrow> Inr \<lparr>text1 = t1, text2 = t2, label = lb\<rparr>)))"

definition load_data :: "string \<Rightarrow> task_source \<Rightarrow> hub \<Rightarrow> string \<Rightarrow> error + sample list" where
  "load_data task task_name load_dataset split_name =
     (case load_dataset (star task_name) split_name of
        Inl e \<Rightarrow> Inl e
      | Inr rows \<Rightarrow> comprehension (make_sample task) rows)"

text \<open>
  The element expression of the STS comprehensions in \<open>load_stsb_llm\<close> and \<open>load_sts\<close>:
  \<open>{'text1': obj['sentence1'], 'text2': obj['sentence2'], 'label': float(obj['score'])}\<close>.
\<close>

definition sts_sample :: "hub_row \<Rightarrow> error + sample" where
  "sts_sample obj =
     (case getitem_text obj ''sentence1'' of
        Inl e \<Rightarrow> Inl e
      | Inr t1 \<Rightarrow>
        (case getitem_text obj ''sentence2'' of
           Inl e \<Rightarrow> Inl e
         | Inr t2 \<Rightarrow>
           (case getitem_score obj of
              Inl e \<Rightarrow> Inl e
            | Inr sc \<Rightarrow> Inr \<lparr>text1 = t1, text2 = t2, label = PyFloat (py_float sc)\<rparr>)))"

section \<open>The distilled STS-B loader \<open>load_stsb_llm\<close>\<close>

text \<open>
  A parsed JSONL line. \<open>json.loads\<close> is external: it is a parameter \<open>loads\<close> that yields
  the object of a line or fails. The file system maps a path to the lines of the file.
\<close>

record json_obj =
  sentence1 :: string
  sentence2 :: string
  score :: number

datatype fpaths = OnePath string | ManyPaths "string list"

type_synonym json_loads = "string \<Rightarrow> json_obj option"
type_synonym filesystem = "string \<Rightarrow> string list option"

text \<open>
  The filter of the loop body:
  \<open>skip_neg and obj['score'] == 0 and
    len(set(obj['sentence1'].split()) - set(obj['sentence2'].split())) < 5\<close>.
\<close>

definition word_diff :: "json_obj \<Rightarrow> nat" where
  "word_diff obj = card (set (split_ws (sentence1 obj)) - set (split_ws (sentence2 obj)))"

definition skipped :: "bool \<Rightarrow> json_obj \<Rightarrow> bool" where
  "skipped skip_neg obj = (skip_neg \<and> is_zero (score obj) \<and> word_diff obj < 5)"

definition obj_sample :: "json_obj \<Rightarrow> sample" where
  "obj_sample obj =
     \<lparr>text1 = sentence1 obj, text2 = sentence2 obj, label = PyFloat (py_float (score obj))\<rparr>"

fun load_lines :: "json_loads \<Rightarrow> bool \<Rightarrow> string list \<Rightarrow> sample list \<Rightarrow> error + sample list" where
  "load_lines loads skip_neg [] data = Inr data"
| "load_lines loads skip_neg (l # ls) data =
     (let line = strip l in
      if line = [] then load_lines loads skip_neg ls data
      else
        (case loads line of
           None \<Rightarrow> Inl (JSONDecodeError line)
         | Some obj \<Rightarrow>
             if skipped skip_neg obj then load_lines loads skip_neg ls data
             else load_lines loads skip_neg ls (data @ [obj_sample obj])))"

fun load_files ::
  "filesystem \<Rightarrow> json_loads \<Rightarrow> bool \<Rightarrow> string list \<Rightarrow> sample list \<Rightarrow> error + sample list" where
  "load_files fs loads skip_neg [] data = Inr data"
| "load_files fs loads skip_neg (fpath # rest) data =
     (case fs fpath of
        None \<Rightarrow> Inl (FileNotFoundError fpath)
      | Some ls \<Rightarrow>
        (case load_lines loads skip_neg ls data of
           Inl e \<Rightarrow> Inl e
         | Inr data' \<Rightarrow> load_files fs loads skip_neg rest data'))"

definition load :: "filesystem \<Rightarrow> json_loads \<Rightarrow> fpaths \<Rightarrow> bool \<Rightarrow> error + sample list" where
  "load fs loads paths skip_neg =
     load_files fs loads skip_neg (case paths of OnePath p \<Rightarrow> [p] | ManyPaths ps \<Rightarrow> ps) []"

definition load_stsb_llm ::
  "string \<Rightarrow> filesystem \<Rightarrow> json_loads \<Rightarrow> hub \<Rightarrow> string \<Rightarrow> error + sample list" where
  "load_stsb_llm task fs loads load_dataset split_name =
     (if split_name = ''train'' then
        (if task = ''STS-B-ChatGLM'' then
           load fs loads (OnePath ''data/llm_supervised_stsb/stsb.chatglm.train.jsonl'') False
         else if task = ''STS-B-LLaMA'' then
           load fs loads (OnePath ''data/llm_supervised_stsb/stsb.llama.train.jsonl'') False
         else if task = ''STS-B-ChatGPT'' then
           load fs loads (OnePath ''data/llm_supervised_stsb/stsb.chatgpt.train.jsonl'') True
         else if task = ''STS-B-ALL'' then
           load fs loads
             (ManyPaths (map (\<lambda>n. ''data/llm_supervised_stsb/stsb.'' @ n @ ''.train.jsonl'')
                [''chatgpt'', ''llama'', ''chatglm''])) True
         else Inl NotImplementedError)
      else
        (case load_dataset [''./data/mteb___stsbenchmark-sts''] split_name of
           Inl e \<Rightarrow> Inl e
         | Inr rows \<Rightarrow> comprehension sts_sample rows))"

section \<open>The NLI loader \<open>load_nli_data\<close>\<close>

text \<open>
  A row of \<open>AllNLI.tsv.gz\<close> as \<open>csv.DictReader\<close> yields it: every column is text. The
  columns \<open>split\<close>, \<open>label\<close>, \<open>sentence1\<close>, \<open>sentence2\<close> carry the prefix \<open>nli_\<close> here,
  since a field name belongs to one record type.
\<close>

record nli_row =
  nli_split :: string
  nli_label :: string
  nli_sentence1 :: string
  nli_sentence2 :: string

definition nli_label_mapping :: "(string \<times> int) list" where
  "nli_label_mapping = [(''entailment'', 1), (''neutral'', 1), (''contradiction'', 0)]"

text \<open>
  The body of the loop over the rows: \<open>Inr None\<close> when the row is passed over,
  \<open>Inr (Some r)\<close> when \<open>r\<close> is appended to \<open>data\<close>, \<open>Inl\<close> when
  \<open>label_mapping[row['label']]\<close> raises.
\<close>

definition nli_body :: "bool \<Rightarrow> nli_row \<Rightarrow> error + sample option" where
  "nli_body exclude_neutral row =
     (if nli_split row = ''train'' \<and> nli_label row \<noteq> ''neutral'' then
        (if exclude_neutral \<and> nli_label row = ''neutral'' then Inr None
         else
           (let sent1 = strip (nli_sentence1 row); sent2 = strip (nli_sentence2 row) in
            case map_of nli_label_mapping (nli_label row) of
              None \<Rightarrow> Inl (KeyError (nli_label row))
            | Some lb \<Rightarrow> Inr (Some \<lparr>text1 = sent1, text2 = sent2, label = PyInt lb\<rparr>)))
      else Inr None)"

fun load_all_nli :: "bool \<Rightarrow> nli_row list \<Rightarrow> sample list \<Rightarrow> error + sample list" where
  "load_all_nli exclude_neutral [] data = Inr data"
| "load_all_nli exclude_neutral (row # rows) data =
     (case nli_body exclude_neutral row of
        Inl e \<Rightarrow> Inl e
      | Inr None \<Rightarrow> load_all_nli exclude_neutral rows data
      | Inr (Some r) \<Rightarrow> load_all_nli exclude_neutral rows (data @ [r]))"

definition sts_paths :: "string list" where
  "sts_paths =
     map (\<lambda>i. ''./data/mteb___sts'' @ str_int i @ ''-sts'') [12, 13, 14, 15, 16]
     @ [''./data/mteb___stsbenchmark-sts'', ''./data/mteb___sickr-sts'']"

fun load_sts :: "hub \<Rightarrow> string list \<Rightarrow> sample list \<Rightarrow> error + sample list" where
  "load_sts load_dataset [] all_sts = Inr all_sts"
| "load_sts load_dataset (path # paths) all_sts =
     (case load_dataset [path] ''test'' of
        Inl e \<Rightarrow> Inl e
      | Inr rows \<Rightarrow>
        (case comprehension sts_sample rows of
           Inl e \<Rightarrow> Inl e
         | Inr xs \<Rightarrow> load_sts load_dataset paths (all_sts @ xs)))"

text \<open>
  \<open>load_nli_data\<close> returns the pair \<open>(load_all_nli(), load_sts())\<close>; \<open>tsv\<close> is the content
  of \<open>./data/AllNLI.tsv.gz\<close>, or the error of opening it.
\<close>

definition load_nli_data ::
  "bool \<Rightarrow> error + nli_row list \<Rightarrow> hub \<Rightarrow> error + sample list \<times> sample list" where
  "load_nli_data exclude_neutral tsv load_dataset =
     (case tsv of
        Inl e \<Rightarrow> Inl e
      | Inr rows \<Rightarrow>
        (case load_all_nli exclude_neutral rows [] of
           Inl e \<Rightarrow> Inl e
         | Inr nli \<Rightarrow>
           (case load_sts load_dataset sts_paths [] of
              Inl e \<Rightarrow> Inl e
            | Inr sts \<Rightarrow> Inr (nli, sts))))"

section \<open>The C-STS loader \<open>load_csts_data\<close>\<close>

text \<open>
  A row of the C-STS CSV files (columns \<open>sentence1\<close>, \<open>sentence2\<close>, \<open>condition\<close>,
  \<open>label\<close>, with the prefix \<open>csts_\<close>). The loop of the inner \<open>load_data\<close> keeps four
  variables: the list \<open>data\<close> and the three bookkeeping collections; a
  \<open>defaultdict(set)\<close> is a total function into sets.
\<close>

record csts_row =
  csts_sentence1 :: string
  csts_sentence2 :: string
  csts_condition :: string
  csts_label :: number

record csts_state =
  data :: "csts_sample list"
  sentence_condition_map :: "string \<times> string \<Rightarrow> string set"
  sentence_label_map :: "string \<times> string \<Rightarrow> number set"
  all_conditions :: "string set"

definition csts_init :: csts_state where
  "csts_init =
     \<lparr>data = [], sentence_condition_map = (\<lambda>_. {}), sentence_label_map = (\<lambda>_. {}),
      all_conditions = {}\<rparr>"

text \<open>The record the loop appends for a row, after the three \<open>strip()\<close> assignments.\<close>

definition csts_norm :: "csts_row \<Rightarrow> csts_sample" where
  "csts_norm obj =
     \<lparr>text1 = strip (csts_sentence1 obj), text2 = strip (csts_sentence2 obj),
      label = csts_label obj, condition = strip (csts_condition obj)\<rparr>"

definition csts_step :: "csts_state \<Rightarrow> csts_row \<Rightarrow> csts_state" where
  "csts_step st obj =
     (let s1 = strip (csts_sentence1 obj);
          s2 = strip (csts_sentence2 obj);
          c = strip (csts_condition obj);
          scm = sentence_condition_map st;
          slm = sentence_label_map st
      in \<lparr>data =
            foldl (\<lambda>d (sent1, sent2).
                     d @ [\<lparr>text1 = sent1, text2 = sent2, label = csts_label obj, condition = c\<rparr>])
              (data st) [(s1, s2)],
          sentence_condition_map = scm((s1, s2) := insert c (scm (s1, s2))),
          sentence_label_map = slm((s1, s2) := insert (csts_label obj) (slm (s1, s2))),
          all_conditions = insert c (all_conditions st)\<rparr>)"

definition csts_load_data :: "csts_row list \<Rightarrow> csts_sample list" where
  "csts_load_data ds = data (foldl csts_step csts_init ds)"

definition load_csts_data ::
  "error + csts_row list \<times> csts_row list \<times> csts_row list
   \<Rightarrow> error + csts_sample list \<times> csts_sample list \<times> csts_sample list" where
  "load_csts_data csts_dataset =
     (case csts_dataset of
        Inl e \<Rightarrow> Inl e
      | Inr (train, validation, test) \<Rightarrow>
          Inr (csts_load_data train, csts_load_data validation, csts_load_data test))"

section \<open>The script: split loading, dataset assembly and mode dispatch\<close>

text \<open>
  The command-line arguments the control flow of the script reads; the hyperparameters
  that are only handed on to the embedding library are left out.
\<close>

record args =
  mode :: string
  task :: string
  save_dir :: "string option"
  do_eval :: int
  debug_sample_size :: "int option"
  model_name :: string

text \<open>
  What is outside the script: the hub, the NLI file, the random order that
  \<open>Dataset.shuffle()\<close> gives the train partition, and the embedding library, whose
  calls either return or raise (\<open>Some e\<close>). Tokenization (\<open>.map(AngleDataTokenizer(...))\<close>)
  belongs to the library and is part of its \<open>fit\<close> and \<open>evaluate\<close> here.
\<close>

record world =
  load_dataset :: hub
  nli_tsv :: "error + nli_row list"
  angle_init :: "bool \<Rightarrow> error option"
  from_pretrained :: "string option \<Rightarrow> error option"
  shuffle :: "sample list \<Rightarrow> sample list"
  fit :: "sample list \<Rightarrow> sample list option \<Rightarrow> error option"
  evaluate :: "sample list \<Rightarrow> error option"

text \<open>
  The calls into the library and the file written, in the order the script makes them.
  An event is logged when the call is made, also when the call then raises.
\<close>

datatype event =
    Init bool
  | FromPretrained "string option"
  | Fit "sample list" "sample list option"
  | Evaluate "sample list"
  | WriteJson string "(string \<times> real) list"

type_synonym partitions = "sample list option \<times> sample list option \<times> sample list option"

definition load_splits :: "args \<Rightarrow> task_source \<Rightarrow> world \<Rightarrow> error + partitions" where
  "load_splits a task_name w =
     (if task a = ''NLI-STS'' then
        (case load_nli_data True (nli_tsv w) (load_dataset w) of
           Inl e \<Rightarrow> Inl e
         | Inr (train_data, test_data) \<Rightarrow> Inr (Some train_data, None, Some test_data))
      else
        (case load_data (task a) task_name (load_dataset w) ''train'' of
           Inl e \<Rightarrow> Inl e
         | Inr train_data \<Rightarrow>
           (case load_data (task a) task_name (load_dataset w) ''validation'' of
              Inl e \<Rightarrow> Inl e
            | Inr valid_data \<Rightarrow>
              (case load_data (task a) task_name (load_dataset w) ''test'' of
                 Inl e \<Rightarrow> Inl e
               | Inr test_data \<Rightarrow>
                   Inr (Some train_data, Some valid_data,
                        Some (if task a \<in> set [''QQP'', ''QNLI'', ''RTE''] then valid_data
                              else test_data))))))"

definition assemble :: "int option \<Rightarrow> partitions \<Rightarrow> (string \<rightharpoonup> sample list)" where
  "assemble sample_size parts =
     (case parts of (train_data, valid_data, test_data) \<Rightarrow>
        (let dataset = Map.empty;
             dataset =
               (case train_data of
                  None \<Rightarrow> dataset
                | Some tr \<Rightarrow>
                    dataset(''train'' \<mapsto>
                      (case sample_size of None \<Rightarrow> tr | Some n \<Rightarrow> slice_to tr n)));
             dataset =
               (case valid_data of None \<Rightarrow> dataset | Some va \<Rightarrow> dataset(''validation'' \<mapsto> va));
             dataset =
               (case test_data of None \<Rightarrow> dataset | Some te \<Rightarrow> dataset(''test'' \<mapsto> te))
         in dataset))"

text \<open>\<open>'llama' in args.model_name.lower()\<close>, on characters below 256.\<close>

definition lower_char :: "char \<Rightarrow> char" where
  "lower_char c =
     (let n = (of_char c :: nat) in
      if (65 \<le> n \<and> n \<le> 90) \<or> (192 \<le> n \<and> n \<le> 222 \<and> n \<noteq> 215) then char_of (n + 32) else c)"

fun startswith :: "string \<Rightarrow> string \<Rightarrow> bool" where
  "startswith s [] = True"
| "startswith [] (p # ps) = False"
| "startswith (c # cs) (p # ps) = (c = p \<and> startswith cs ps)"

fun contains :: "string \<Rightarrow> string \<Rightarrow> bool" where
  "contains sub [] = (sub = [])"
| "contains sub (c # cs) = (startswith (c # cs) sub \<or> contains sub cs)"

definition run_train :: "args \<Rightarrow> world \<Rightarrow> (string \<rightharpoonup> sample list) \<Rightarrow> event list \<times> error option" where
  "run_train a w dataset =
     (let apply_lora = contains ''llama'' (map lower_char (model_name a)) in
      case angle_init w apply_lora of
        Some e \<Rightarrow> ([Init apply_lora], Some e)
      | None \<Rightarrow>
        (case dataset ''train'' of
           None \<Rightarrow> ([Init apply_lora], Some (KeyError ''train''))
         | Some train_ds \<Rightarrow>
           (case (if do_eval a \<noteq> 0 then
                    (case dataset ''validation'' of
                       None \<Rightarrow> Inl (KeyError ''validation'')
                     | Some v \<Rightarrow> Inr (Some v))
                  else Inr None) of
              Inl e \<Rightarrow> ([Init apply_lora], Some e)
            | Inr valid_ds \<Rightarrow>
                ([Init apply_lora, Fit (shuffle w train_ds) valid_ds],
                 fit w (shuffle w train_ds) valid_ds))))"

definition run_test :: "args \<Rightarrow> world \<Rightarrow> (string \<rightharpoonup> sample list) \<Rightarrow> event list \<times> error option" where
  "run_test a w dataset =
     (case from_pretrained w (save_dir a) of
        Some e \<Rightarrow> ([FromPretrained (save_dir a)], Some e)
      | None \<Rightarrow>
        (case dataset ''test'' of
           None \<Rightarrow> ([FromPretrained (save_dir a)], Some (KeyError ''test''))
         | Some test_ds \<Rightarrow>
             ([FromPretrained (save_dir a), Evaluate test_ds], evaluate w test_ds)))"

text \<open>
  The \<open>test_csts\<close> branch loads the model and then evaluates
  \<open>enumerate(csts_test_data)\<close>. No statement of the script binds the name
  \<open>csts_test_data\<close> (\<open>load_csts_data\<close> is defined and never called), so evaluating it
  raises \<open>NameError\<close>; the loop body and the \<open>json.dump\<close> after it are never reached.
\<close>

definition run_test_csts :: "args \<Rightarrow> world \<Rightarrow> event list \<times> error option" where
  "run_test_csts a w =
     (case from_pretrained w (save_dir a) of
        Some e \<Rightarrow> ([FromPretrained (save_dir a)], Some e)
      | None \<Rightarrow> ([FromPretrained (save_dir a)], Some (NameError ''csts_test_data'')))"

text \<open>
  The script from \<open>assert args.task in TASK_MAPPING\<close> on (the assertion is executed:
  the interpreter runs without \<open>-O\<close>). The result is the log of events and the
  exception that ended the run, \<open>None\<close> when the run ended normally.
\<close>

definition main :: "args \<Rightarrow> world \<Rightarrow> event list \<times> error option" where
  "main a w =
     (case map_of TASK_MAPPING (task a) of
        None \<Rightarrow> ([], Some AssertionError)
      | Some task_name \<Rightarrow>
        (case load_splits a task_name w of
           Inl e \<Rightarrow> ([], Some e)
         | Inr parts \<Rightarrow>
           (let dataset = assemble (debug_sample_size a) parts in
            if mode a = ''train'' then run_train a w dataset
            else if mode a = ''test'' then run_test a w dataset
            else if mode a = ''test_csts'' then run_test_csts a w
            else ([], Some (ValueError (''not support '' @ mode a))))))"

section \<open>What the loaders return\<close>

text \<open>
  Each loader is a loop that appends to a list or raises. The lemmas of this section
  say when a loader returns and what list it returns then, in terms of the rows it read;
  the sections after it draw on them.
\<close>

lemma comprehension_Inr_iff:
  "comprehension f xs = Inr ys \<longleftrightarrow> list_all2 (\<lambda>x y. f x = Inr y) xs ys"
proof (induction xs arbitrary: ys)
  case Nil
  show ?case by auto
next
  case (Cons x xs)
  show ?case
  proof (cases "f x")
    case (Inl e)
    then show ?thesis by (auto simp: list_all2_Cons1)
  next
    case fx: (Inr y)
    show ?thesis
    proof (cases "comprehension f xs")
      case (Inl e)
      then have "\<not> list_all2 (\<lambda>x y. f x = Inr y) xs zs" for zs
        using Cons.IH [of zs] by simp
      with fx Inl show ?thesis by (auto simp: list_all2_Cons1)
    next
      case (Inr zs)
      then have "list_all2 (\<lambda>x y. f x = Inr y) xs ws \<longleftrightarrow> ws = zs" for ws
        using Cons.IH [of ws] by auto
      with fx Inr show ?thesis by (auto simp: list_all2_Cons1)
    qed
  qed
qed

lemma data_csts_step: "data (csts_step st obj) = data st @ [csts_norm obj]"
  by (simp add: csts_step_def Let_def csts_norm_def)

lemma data_foldl_csts_step: "data (foldl csts_step st ds) = data st @ map csts_norm ds"
  by (induction ds arbitrary: st) (simp_all add: data_csts_step)

lemma csts_load_data_map: "csts_load_data ds = map csts_norm ds"
  by (simp add: csts_load_data_def data_foldl_csts_step csts_init_def)

lemma load_lines_Inr_iff:
  "load_lines loads skip_neg ls acc = Inr out \<longleftrightarrow>
   (\<exists>objs. map loads (filter (\<lambda>l. l \<noteq> []) (map strip ls)) = map Some objs
      \<and> out = acc @ map obj_sample (filter (\<lambda>obj. \<not> skipped skip_neg obj) objs))"
proof (induction ls arbitrary: acc)
  case Nil
  show ?case by auto
next
  case (Cons l ls)
  show ?case
  proof (cases "strip l = []")
    case True
    then show ?thesis by (simp add: Cons.IH)
  next
    case False
    show ?thesis
    proof (cases "loads (strip l)")
      case None
      with False show ?thesis by auto
    next
      case (Some obj)
      with False show ?thesis
        by (auto simp: Cons.IH Let_def map_eq_Cons_conv Cons_eq_map_conv)
    qed
  qed
qed

lemma load_all_nli_Inr_iff:
  "load_all_nli ex rows acc = Inr out \<longleftrightarrow>
   (\<exists>rs. map (nli_body ex) rows = map Inr rs \<and> out = acc @ concat (map (case_option [] (\<lambda>r. [r])) rs))"
proof (induction rows arbitrary: acc)
  case Nil
  show ?case by auto
next
  case (Cons row rows)
  show ?case
  proof (cases "nli_body ex row")
    case (Inl e)
    then show ?thesis by auto
  next
    case (Inr r)
    then show ?thesis
      by (cases r) (auto simp: Cons.IH map_eq_Cons_conv Cons_eq_map_conv)
  qed
qed

lemma make_sample_stsb:
  "make_sample ''STS-B'' obj = Inr r \<longleftrightarrow>
   (\<exists>s1 s2 sc. obj = StsRow s1 s2 sc \<and> r = \<lparr>text1 = s1, text2 = s2, label = PyFloat (py_float sc)\<rparr>)"
  by (cases obj) (auto simp: make_sample_def make_label_def columns_def)

lemma make_sample_texts:
  "make_sample tk obj = Inr r \<Longrightarrow>
   getitem_text obj (fst (columns tk)) = Inr (text1 r)
   \<and> getitem_text obj (snd (columns tk)) = Inr (text2 r)"
  by (auto simp: make_sample_def split: sum.splits)

lemma list_all2_source:
  assumes "list_all2 P xs ys" and "y \<in> set ys"
  shows "\<exists>x\<in>set xs. P x y"
proof -
  from assms(2) obtain i where i: "i < length ys" "ys ! i = y"
    by (auto simp: in_set_conv_nth)
  with assms(1) have "P (xs ! i) y" "i < length xs"
    by (auto simp: list_all2_conv_all_nth)
  then show ?thesis using nth_mem by blast
qed

lemma load_data_texts:
  assumes "ld (star tn) sp = Inr rows" and "load_data tk tn ld sp = Inr recs"
  shows "\<forall>r\<in>set recs. \<exists>obj\<in>set rows.
           getitem_text obj (fst (columns tk)) = Inr (text1 r)
           \<and> getitem_text obj (snd (columns tk)) = Inr (text2 r)"
proof
  fix r assume r: "r \<in> set recs"
  from assms have "list_all2 (\<lambda>obj r. make_sample tk obj = Inr r) rows recs"
    by (simp add: load_data_def comprehension_Inr_iff)
  from list_all2_source [OF this r] obtain obj where "obj \<in> set rows" "make_sample tk obj = Inr r"
    by blast
  then show "\<exists>obj\<in>set rows.
           getitem_text obj (fst (columns tk)) = Inr (text1 r)
           \<and> getitem_text obj (snd (columns tk)) = Inr (text2 r)"
    using make_sample_texts by blast
qed

lemma load_files_InrD:
  "load_files fs loads skip_neg ps acc = Inr out \<Longrightarrow>
   \<exists>lss objs. map fs ps = map Some lss
     \<and> map loads (filter (\<lambda>l. l \<noteq> []) (map strip (concat lss))) = map Some objs
     \<and> out = acc @ map obj_sample (filter (\<lambda>obj. \<not> skipped skip_neg obj) objs)"
proof (induction ps arbitrary: acc)
  case Nil
  then show ?case by auto
next
  case (Cons p ps)
  from Cons.prems obtain ls d where p: "fs p = Some ls"
    and d: "load_lines loads skip_neg ls acc = Inr d"
    and rest: "load_files fs loads skip_neg ps d = Inr out"
    by (auto split: option.splits sum.splits)
  from d obtain objs1 where o1: "map loads (filter (\<lambda>l. l \<noteq> []) (map strip ls)) = map Some objs1"
    and d_eq: "d = acc @ map obj_sample (filter (\<lambda>obj. \<not> skipped skip_neg obj) objs1)"
    by (auto simp: load_lines_Inr_iff)
  from Cons.IH [OF rest] obtain lss objs2 where l2: "map fs ps = map Some lss"
    and o2: "map loads (filter (\<lambda>l. l \<noteq> []) (map strip (concat lss))) = map Some objs2"
    and out_eq: "out = d @ map obj_sample (filter (\<lambda>obj. \<not> skipped skip_neg obj) objs2)"
    by blast
  have "map fs (p # ps) = map Some (ls # lss)" using p l2 by simp
  moreover have "map loads (filter (\<lambda>l. l \<noteq> []) (map strip (concat (ls # lss)))) = map Some (objs1 @ objs2)"
    using o1 o2 by simp
  moreover have "out = acc @ map obj_sample (filter (\<lambda>obj. \<not> skipped skip_neg obj) (objs1 @ objs2))"
    using d_eq out_eq by simp
  ultimately show ?case by blast
qed


lemma map_eq_source:
  assumes "map f xs = map g ys" and "y \<in> set ys"
  shows "\<exists>x\<in>set xs. f x = g y"
proof -
  from assms(2) obtain i where i: "i < length ys" "ys ! i = y"
    by (auto simp: in_set_conv_nth)
  from assms(1) have len: "length xs = length ys"
    by (metis length_map)
  from assms(1) i len have "f (xs ! i) = g y"
    by (metis nth_map)
  with i len show ?thesis using nth_mem by metis
qed

lemma nli_body_texts:
  "nli_body ex row = Inr (Some r) \<Longrightarrow>
   text1 r = strip (nli_sentence1 row) \<and> text2 r = strip (nli_sentence2 row)"
  by (auto simp: nli_body_def Let_def split: if_splits option.splits)

lemma load_all_nli_source:
  assumes "load_all_nli ex rows [] = Inr out" and "r \<in> set out"
  shows "\<exists>row\<in>set rows. nli_body ex row = Inr (Some r)"
proof -
  from assms(1) obtain rs where rs: "map (nli_body ex) rows = map Inr rs"
    and out: "out = concat (map (case_option [] (\<lambda>r. [r])) rs)"
    by (auto simp: load_all_nli_Inr_iff)
  from assms(2) out have "Some r \<in> set rs"
    by (auto split: option.splits)
  from map_eq_source [OF rs this] show ?thesis .
qed

lemma load_source:
  assumes "load fs loads paths sk = Inr out" and "r \<in> set out"
  shows "\<exists>obj l. loads l = Some obj \<and> r = obj_sample obj"
proof -
  from assms(1) obtain lss objs where
    o: "map loads (filter (\<lambda>l. l \<noteq> []) (map strip (concat lss))) = map Some objs"
    and out: "out = map obj_sample (filter (\<lambda>obj. \<not> skipped sk obj) objs)"
    unfolding load_def by (auto dest!: load_files_InrD)
  from assms(2) out obtain obj where obj: "obj \<in> set objs" "r = obj_sample obj"
    by auto
  from map_eq_source [OF o obj(1)] obj(2) show ?thesis by blast
qed

lemma dropWhile_fixed: "xs = [] \<or> \<not> P (hd xs) \<Longrightarrow> dropWhile P xs = xs"
  by (cases xs) auto

lemma dropWhile_head: "dropWhile P xs = [] \<or> \<not> P (hd (dropWhile P xs))"
  by (metis hd_dropWhile)

lemma rstrip_head:
  assumes "t = [] \<or> \<not> P (hd t)"
  shows "rev (dropWhile P (rev t)) = [] \<or> \<not> P (hd (rev (dropWhile P (rev t))))"
proof (cases "rev (dropWhile P (rev t)) = []")
  case True
  then show ?thesis by simp
next
  case False
  have "t = rev (dropWhile P (rev t)) @ rev (takeWhile P (rev t))"
    by (metis rev_append rev_rev_ident takeWhile_dropWhile_id)
  with False have "hd t = hd (rev (dropWhile P (rev t)))"
    by (metis hd_append2)
  with False assms show ?thesis by auto
qed

lemma strip_idem: "strip (strip s) = strip s"
proof -
  let ?t = "dropWhile isspace s"
  let ?u = "rev (dropWhile isspace (rev ?t))"
  have t: "?t = [] \<or> \<not> isspace (hd ?t)" by (rule dropWhile_head)
  have "dropWhile isspace ?u = ?u"
    using rstrip_head [of ?t isspace] t by (intro dropWhile_fixed) blast
  moreover have "dropWhile isspace (rev ?u) = rev ?u"
    by (simp add: dropWhile_idem)
  ultimately show ?thesis by (simp add: strip_def)
qed

lemma sts_sample_Inr_iff:
  "sts_sample obj = Inr r \<longleftrightarrow>
   (\<exists>s1 s2 sc. obj = StsRow s1 s2 sc \<and> r = \<lparr>text1 = s1, text2 = s2, label = PyFloat (py_float sc)\<rparr>)"
  by (cases obj) (auto simp: sts_sample_def)

lemma load_sts_InrD:
  "load_sts ld ps acc = Inr recs \<Longrightarrow>
   \<exists>rowss. map (\<lambda>p. ld [p] ''test'') ps = map Inr rowss
     \<and> (\<exists>xs. recs = acc @ xs \<and> list_all2 (\<lambda>obj r. sts_sample obj = Inr r) (concat rowss) xs)"
proof (induction ps arbitrary: acc)
  case Nil
  then show ?case by auto
next
  case (Cons p ps)
  from Cons.prems obtain rows xs where p: "ld [p] ''test'' = Inr rows"
    and xs: "comprehension sts_sample rows = Inr xs"
    and rest: "load_sts ld ps (acc @ xs) = Inr recs"
    by (auto split: sum.splits)
  from xs have x2: "list_all2 (\<lambda>obj r. sts_sample obj = Inr r) rows xs"
    by (simp add: comprehension_Inr_iff)
  from Cons.IH [OF rest] obtain rowss ys where r: "map (\<lambda>p. ld [p] ''test'') ps = map Inr rowss"
    and ys: "recs = (acc @ xs) @ ys" "list_all2 (\<lambda>obj r. sts_sample obj = Inr r) (concat rowss) ys"
    by blast
  have "map (\<lambda>p. ld [p] ''test'') (p # ps) = map Inr (rows # rowss)" using p r by simp
  moreover have "recs = acc @ (xs @ ys)" using ys by simp
  moreover have "list_all2 (\<lambda>obj r. sts_sample obj = Inr r) (concat (rows # rowss)) (xs @ ys)"
    using x2 ys(2) by (simp add: list_all2_appendI)
  ultimately show ?case by blast
qed

lemma load_all_nli_filter:
  "load_all_nli ex rows acc = Inr out \<Longrightarrow>
   \<exists>xs. out = acc @ xs \<and>
     list_all2 (\<lambda>row r. nli_body ex row = Inr (Some r))
       (filter (\<lambda>row. nli_split row = ''train'' \<and> nli_label row \<noteq> ''neutral'') rows) xs"
proof (induction rows arbitrary: acc)
  case Nil
  then show ?case by auto
next
  case (Cons row rows)
  show ?case
  proof (cases "nli_split row = ''train'' \<and> nli_label row \<noteq> ''neutral''")
    case False
    then have "nli_body ex row = Inr None" by (auto simp: nli_body_def)
    with Cons.prems have "load_all_nli ex rows acc = Inr out" by simp
    from Cons.IH [OF this] False show ?thesis by auto
  next
    case True
    with Cons.prems obtain r where b: "nli_body ex row = Inr (Some r)"
      and rest: "load_all_nli ex rows (acc @ [r]) = Inr out"
      by (auto simp: nli_body_def Let_def split: option.splits)
    from Cons.IH [OF rest] obtain ys where "out = (acc @ [r]) @ ys"
      "list_all2 (\<lambda>row r. nli_body ex row = Inr (Some r))
       (filter (\<lambda>row. nli_split row = ''train'' \<and> nli_label row \<noteq> ''neutral'') rows) ys"
      by blast
    with True b show ?thesis by auto
  qed
qed


lemma sts_sample_texts:
  "sts_sample obj = Inr r \<Longrightarrow>
   getitem_text obj ''sentence1'' = Inr (text1 r) \<and> getitem_text obj ''sentence2'' = Inr (text2 r)"
  by (auto simp: sts_sample_Inr_iff)

lemma load_stsb_llm_train:
  "load_stsb_llm tk fs loads ld ''train'' = Inr recs \<Longrightarrow>
   \<exists>paths sk. load fs loads paths sk = Inr recs"
  by (auto simp: load_stsb_llm_def split: if_splits)

lemma load_texts:
  assumes "load fs loads paths sk = Inr out"
  shows "\<exists>lss objs. map fs (case paths of OnePath p \<Rightarrow> [p] | ManyPaths ps \<Rightarrow> ps) = map Some lss
     \<and> map loads (filter (\<lambda>l. l \<noteq> []) (map strip (concat lss))) = map Some objs
     \<and> list_all2 (\<lambda>obj r. text1 r = sentence1 obj \<and> text2 r = sentence2 obj)
          (filter (\<lambda>obj. \<not> skipped sk obj) objs) out"
proof -
  from assms obtain lss objs where
    l: "map fs (case paths of OnePath p \<Rightarrow> [p] | ManyPaths ps \<Rightarrow> ps) = map Some lss"
    and o: "map loads (filter (\<lambda>l. l \<noteq> []) (map strip (concat lss))) = map Some objs"
    and out: "out = map obj_sample (filter (\<lambda>obj. \<not> skipped sk obj) objs)"
    unfolding load_def by (auto dest!: load_files_InrD)
  have "list_all2 (\<lambda>obj r. text1 r = sentence1 obj \<and> text2 r = sentence2 obj)
          (filter (\<lambda>obj. \<not> skipped sk obj) objs) out"
    unfolding out by (simp add: list_all2_map2 list_all2_same obj_sample_def)
  with l o show ?thesis by blast
qed

lemma load_all_nli_texts:
  assumes "load_all_nli ex nrows [] = Inr nout"
  shows "list_all2 (\<lambda>row r. text1 r = strip (nli_sentence1 row) \<and> text2 r = strip (nli_sentence2 row)
            \<and> strip (text1 r) = strip (nli_sentence1 row)
            \<and> strip (text2 r) = strip (nli_sentence2 row))
          (filter (\<lambda>row. nli_split row = ''train'' \<and> nli_label row \<noteq> ''neutral'') nrows) nout"
proof -
  from load_all_nli_filter [OF assms]
  have "list_all2 (\<lambda>row r. nli_body ex row = Inr (Some r))
       (filter (\<lambda>row. nli_split row = ''train'' \<and> nli_label row \<noteq> ''neutral'') nrows) nout"
    by simp
  then show ?thesis
    by (rule list_all2_mono) (auto dest!: nli_body_texts simp: strip_idem)
qed

lemma load_sts_texts:
  assumes "load_sts ld ps [] = Inr srecs"
  shows "\<exists>rowss. map (\<lambda>p. ld [p] ''test'') ps = map Inr rowss
     \<and> list_all2 (\<lambda>obj r. getitem_text obj ''sentence1'' = Inr (text1 r)
                       \<and> getitem_text obj ''sentence2'' = Inr (text2 r)) (concat rowss) srecs"
proof -
  from load_sts_InrD [OF assms] obtain rowss where
    r: "map (\<lambda>p. ld [p] ''test'') ps = map Inr rowss"
    and l: "list_all2 (\<lambda>obj r. sts_sample obj = Inr r) (concat rowss) srecs"
    by auto
  from l have "list_all2 (\<lambda>obj r. getitem_text obj ''sentence1'' = Inr (text1 r)
                       \<and> getitem_text obj ''sentence2'' = Inr (text2 r)) (concat rowss) srecs"
    by (rule list_all2_mono) (auto dest!: sts_sample_texts)
  with r show ?thesis by blast
qed

lemma load_nli_data_parts:
  "load_nli_data ex tsv ld = Inr (nli, sts) \<Longrightarrow>
   (\<exists>rows. tsv = Inr rows \<and> load_all_nli ex rows [] = Inr nli) \<and> load_sts ld sts_paths [] = Inr sts"
  by (auto simp: load_nli_data_def split: sum.splits)

lemma load_csts_data_parts:
  "load_csts_data cd = Inr (ctr, cva, cte) \<Longrightarrow>
   \<exists>tr va te. cd = Inr (tr, va, te) \<and> ctr = csts_load_data tr \<and> cva = csts_load_data va
      \<and> cte = csts_load_data te"
  by (auto simp: load_csts_data_def split: sum.splits)

lemma csts_load_data_texts:
  "list_all2 (\<lambda>obj r. text1 r = strip (csts_sentence1 obj) \<and> text2 r = strip (csts_sentence2 obj)
        \<and> strip (text1 r) = strip (csts_sentence1 obj)
        \<and> strip (text2 r) = strip (csts_sentence2 obj)) ds (csts_load_data ds)"
  by (simp add: csts_load_data_map list_all2_map2 list_all2_same csts_norm_def strip_idem)

lemma nli_body_flag: "nli_body ex row = nli_body True row"
  by (auto simp: nli_body_def)

lemma load_all_nli_flag: "load_all_nli ex rows acc = load_all_nli True rows acc"
  by (induction rows arbitrary: acc)
     (simp_all add: nli_body_flag [of ex] split: sum.splits option.splits)

lemma assemble_train:
  "assemble dss (Some tr, va, te) ''train'' = Some (case dss of None \<Rightarrow> tr | Some n \<Rightarrow> slice_to tr n)"
  by (simp add: assemble_def Let_def split: option.splits)

lemma assemble_validation: "assemble dss (trd, va, te) ''validation'' = va"
  by (simp add: assemble_def Let_def split: option.splits)

lemma assemble_test: "assemble dss (trd, va, te) ''test'' = te"
  by (simp add: assemble_def Let_def split: option.splits)

lemma task_keys:
  "set (map fst TASK_MAPPING) = {''NLI-STS'', ''STS-B'', ''MRPC'', ''QQP'', ''QNLI'', ''RTE''}"
  by (auto simp: TASK_MAPPING_def)

lemma main_unknown_task:
  "task a \<notin> set (map fst TASK_MAPPING) \<Longrightarrow> main a w = ([], Some AssertionError)"
proof -
  assume "task a \<notin> set (map fst TASK_MAPPING)"
  then have "map_of TASK_MAPPING (task a) = None"
    by (simp add: map_of_eq_None_iff)
  then show ?thesis by (simp add: main_def)
qed

lemma main_unknown_mode:
  assumes "mode a \<notin> {''train'', ''test'', ''test_csts''}"
  shows "fst (main a w) = [] \<and> (\<exists>e. snd (main a w) = Some e)"
  using assms by (auto simp: main_def Let_def split: option.splits sum.splits)

lemma main_unknown_mode_loaded:
  assumes "mode a \<notin> {''train'', ''test'', ''test_csts''}"
    and "map_of TASK_MAPPING (task a) = Some tn" and "load_splits a tn w = Inr parts"
  shows "main a w = ([], Some (ValueError (''not support '' @ mode a)))"
  using assms by (auto simp: main_def Let_def)

lemma main_unknown_mode_exact:
  assumes "mode a \<notin> {''train'', ''test'', ''test_csts''}"
  shows "main a w =
     ([], Some (case map_of TASK_MAPPING (task a) of
                  None \<Rightarrow> AssertionError
                | Some tn \<Rightarrow>
                    (case load_splits a tn w of
                       Inl e \<Rightarrow> e
                     | Inr parts \<Rightarrow> ValueError (''not support '' @ mode a))))"
  using assms by (auto simp: main_def Let_def split: option.splits sum.splits)

lemma main_test_csts:
  assumes "mode a = ''test_csts''"
  shows "(\<exists>e. snd (main a w) = Some e) \<and> (\<forall>p r. WriteJson p r \<notin> set (fst (main a w)))"
  using assms by (auto simp: main_def Let_def run_test_csts_def split: option.splits sum.splits)


section \<open>The label remap of QNLI and RTE\<close>

lemma digits_single: "digits n = [c] \<longleftrightarrow> n < 10 \<and> ''0123456789'' ! n = c"
proof (cases "n < 10")
  case True
  then show ?thesis by (subst digits.simps) auto
next
  case False
  have "digits (n div 10) \<noteq> []" by (subst digits.simps) simp
  with False show ?thesis by (subst digits.simps) simp
qed

lemma digit_one: "n < 10 \<Longrightarrow> (''0123456789'' ! n = CHR ''1'') = (n = (1::nat))"
proof -
  assume "n < 10"
  then have "n \<in> {0, 1, 2, 3, 4, 5, 6, 7, 8, 9}" by auto
  then show ?thesis by auto
qed

lemma digit_zero: "n < 10 \<Longrightarrow> (''0123456789'' ! n = CHR ''0'') = (n = (0::nat))"
proof -
  assume "n < 10"
  then have "n \<in> {0, 1, 2, 3, 4, 5, 6, 7, 8, 9}" by auto
  then show ?thesis by auto
qed

lemma str_int_one: "str_int l = ''1'' \<longleftrightarrow> l = 1"
  unfolding str_int_def by (auto simp: digits_single digit_one)

lemma str_int_zero: "str_int l = ''0'' \<longleftrightarrow> l = 0"
  unfolding str_int_def by (auto simp: digits_single digit_zero)

lemma remap_label_entailment:
  "tk \<in> {''QNLI'', ''RTE''} \<Longrightarrow>
   remap_label tk l = (if l = 1 then 0 else if l = 0 then 1 else l)"
  by (auto simp: remap_label_def label_mapping_def dict_get_def str_int_one str_int_zero)

lemma make_sample_entailment:
  assumes "tk \<in> {''QNLI'', ''RTE''}"
  shows "make_sample tk obj = Inr r \<longleftrightarrow>
   (\<exists>t1 t2 l. obj = GlueRow t1 t2 l
      \<and> r = \<lparr>text1 = t1, text2 = t2, label = PyInt (remap_label tk l)\<rparr>)"
proof -
  have cols: "columns tk = (''text1'', ''text2'')" using assms by (auto simp: columns_def)
  have ne: "tk \<noteq> ''STS-B''" using assms by auto
  show ?thesis by (cases obj) (auto simp: make_sample_def make_label_def cols ne)
qed

lemma comprehension_map:
  "(\<And>x. f (g x) = Inr (h x)) \<Longrightarrow> comprehension f (map g xs) = Inr (map h xs)"
  by (induction xs) simp_all

text \<open>
  C4. For the tasks QNLI and RTE, whenever the hub loader returns, it returns one record
  per row of the split, in order, and the label of each record is \<open>remap_label\<close> of the
  integer label of its row; on a split of rows with the columns \<open>text1\<close>, \<open>text2\<close>,
  \<open>label\<close> it does return. The remap sends 1 to 0 and 0 to 1, is a bijection on
  \<open>{0, 1}\<close>, and applying it twice gives the label back.
\<close>

theorem label_remap_involution:
  assumes "tk \<in> {''QNLI'', ''RTE''}"
  shows "(ld (star tn) sp = Inr rows \<and> load_data tk tn ld sp = Inr recs \<longrightarrow>
            list_all2 (\<lambda>obj r. \<exists>t1 t2 l. obj = GlueRow t1 t2 l
                 \<and> r = \<lparr>text1 = t1, text2 = t2, label = PyInt (remap_label tk l)\<rparr>) rows recs)
         \<and> (ld (star tn) sp = Inr (map (\<lambda>(t1, t2, l). GlueRow t1 t2 l) triples) \<longrightarrow>
            load_data tk tn ld sp
              = Inr (map (\<lambda>(t1, t2, l). \<lparr>text1 = t1, text2 = t2, label = PyInt (remap_label tk l)\<rparr>)
                       triples))
         \<and> make_sample tk (GlueRow t1 t2 l)
           = Inr \<lparr>text1 = t1, text2 = t2, label = PyInt (remap_label tk l)\<rparr>
         \<and> remap_label tk 1 = 0 \<and> remap_label tk 0 = 1
         \<and> bij_betw (remap_label tk) {0, 1} {0, 1}
         \<and> remap_label tk (remap_label tk l) = l"
proof -
  note r = remap_label_entailment [OF assms]
  note m = make_sample_entailment [OF assms]
  have a: "ld (star tn) sp = Inr rows \<and> load_data tk tn ld sp = Inr recs \<longrightarrow>
            list_all2 (\<lambda>obj r. \<exists>t1 t2 l. obj = GlueRow t1 t2 l
                 \<and> r = \<lparr>text1 = t1, text2 = t2, label = PyInt (remap_label tk l)\<rparr>) rows recs"
    by (auto simp: load_data_def comprehension_Inr_iff m)
  have "make_sample tk (case x of (t1, t2, l) \<Rightarrow> GlueRow t1 t2 l)
          = Inr (case x of (t1, t2, l) \<Rightarrow> \<lparr>text1 = t1, text2 = t2, label = PyInt (remap_label tk l)\<rparr>)" for x
    by (cases x) (simp add: m)
  then have b: "ld (star tn) sp = Inr (map (\<lambda>(t1, t2, l). GlueRow t1 t2 l) triples) \<longrightarrow>
            load_data tk tn ld sp
              = Inr (map (\<lambda>(t1, t2, l). \<lparr>text1 = t1, text2 = t2, label = PyInt (remap_label tk l)\<rparr>)
                       triples)"
    by (simp add: load_data_def comprehension_map)
  have c: "make_sample tk (GlueRow t1 t2 l)
               = Inr \<lparr>text1 = t1, text2 = t2, label = PyInt (remap_label tk l)\<rparr>"
    by (simp add: m)
  have d: "bij_betw (remap_label tk) {0, 1} {0, 1}"
    unfolding bij_betw_def inj_on_def by (auto simp: r)
  have e: "remap_label tk 1 = 0 \<and> remap_label tk 0 = 1 \<and> remap_label tk (remap_label tk l) = l"
    by (simp add: r)
  from a b c d e show ?thesis by blast
qed

theorem label_remap_involution_witness:
  "''QNLI'' \<in> {''QNLI'', ''RTE''}
   \<and> load_data ''QNLI'' (Tuple [''SetFit/qnli''])
        (\<lambda>names sp. Inr [GlueRow ''a'' ''b'' 1, GlueRow ''c'' ''d'' 0, GlueRow ''e'' ''f'' (- 1)])
        ''test''
     = Inr [\<lparr>text1 = ''a'', text2 = ''b'', label = PyInt 0\<rparr>,
            \<lparr>text1 = ''c'', text2 = ''d'', label = PyInt 1\<rparr>,
            \<lparr>text1 = ''e'', text2 = ''f'', label = PyInt (- 1)\<rparr>]
   \<and> make_sample ''QNLI'' (GlueRow ''a'' ''b'' 1) = Inr \<lparr>text1 = ''a'', text2 = ''b'', label = PyInt 0\<rparr>
   \<and> remap_label ''QNLI'' (remap_label ''QNLI'' 1) = 1"
proof -
  let ?ld = "\<lambda>(names :: string list) (sp :: string).
     (Inr [GlueRow ''a'' ''b'' 1, GlueRow ''c'' ''d'' 0, GlueRow ''e'' ''f'' (- 1)] :: error + hub_row list)"
  have h: "''QNLI'' \<in> {''QNLI'', ''RTE''}" by simp
  note t = label_remap_involution [OF h, where ld = ?ld and tn = "Tuple [''SetFit/qnli'']"
      and sp = "''test''" and triples = "[(''a'', ''b'', 1), (''c'', ''d'', 0), (''e'', ''f'', - 1)]"
      and ?t1.0 = "''a''" and ?t2.0 = "''b''" and l = 1]
  have r: "remap_label ''QNLI'' 1 = 0" "remap_label ''QNLI'' 0 = 1"
    "remap_label ''QNLI'' (- 1) = - 1"
    using remap_label_entailment [OF h] by simp_all
  show ?thesis using t h by (simp add: r)
qed


section \<open>The C-STS loader keeps every row\<close>

text \<open>
  C1, as stated, asks that no two output records share \<open>(text1, text2, condition)\<close>.
  The loader appends a record for every row; the sets keyed by sentence pair are filled
  and never read. Two equal rows give two equal records.
\<close>

theorem csts_duplicates_counterexample:
  "csts_load_data
     [\<lparr>csts_sentence1 = ''a man'', csts_sentence2 = ''a dog'', csts_condition = ''animal'',
       csts_label = PyInt 3\<rparr>,
      \<lparr>csts_sentence1 = ''a man'', csts_sentence2 = ''a dog'', csts_condition = ''animal'',
       csts_label = PyInt 3\<rparr>]
   = [\<lparr>text1 = ''a man'', text2 = ''a dog'', label = PyInt 3, condition = ''animal''\<rparr>,
      \<lparr>text1 = ''a man'', text2 = ''a dog'', label = PyInt 3, condition = ''animal''\<rparr>]
   \<and> \<not> distinct (map (\<lambda>r. (text1 r, text2 r, condition r))
        (csts_load_data
          [\<lparr>csts_sentence1 = ''a man'', csts_sentence2 = ''a dog'', csts_condition = ''animal'',
            csts_label = PyInt 3\<rparr>,
           \<lparr>csts_sentence1 = ''a man'', csts_sentence2 = ''a dog'', csts_condition = ''animal'',
            csts_label = PyInt 3\<rparr>]))"
  by (simp add: csts_load_data_def csts_step_def csts_init_def strip_def isspace_def Let_def)

text \<open>
  C1, amended. For every input split the output holds exactly one record per input row,
  in the order of the rows: the row's \<open>sentence1\<close>, \<open>sentence2\<close> and \<open>condition\<close>
  trimmed, and its label. Hence the triples \<open>(text1, text2, condition)\<close> of the output
  are the trimmed triples of the input, row by row, repeated where the input repeats
  them.
\<close>

theorem csts_one_record_per_row:
  "csts_load_data ds = map csts_norm ds
   \<and> length (csts_load_data ds) = length ds
   \<and> map (\<lambda>r. (text1 r, text2 r, condition r)) (csts_load_data ds)
       = map (\<lambda>obj. (strip (csts_sentence1 obj), strip (csts_sentence2 obj),
                      strip (csts_condition obj))) ds"
  by (simp add: csts_load_data_map csts_norm_def)

section \<open>Neutral pairs in the NLI loader\<close>

text \<open>
  C7. With \<open>exclude_neutral = False\<close> a training row labelled \<open>neutral\<close> is still passed
  over: the outer condition \<open>row['label'] != 'neutral'\<close> rejects it before the flag is
  read. The loader returns the empty list for such a row.
\<close>

theorem nli_neutral_dropped_without_flag:
  "load_all_nli False
     [\<lparr>nli_split = ''train'', nli_label = ''neutral'', nli_sentence1 = ''a man'',
       nli_sentence2 = ''a person''\<rparr>] []
   = Inr []"
  by (simp add: nli_body_def)

section \<open>STS-B labels\<close>

text \<open>
  C8, as stated, asks that every STS-B label lies between 0.0 and 5.0. The loader
  converts the score with \<open>float\<close> and checks no range: a row whose score is 7.0 gives a
  record whose label is 7.0.
\<close>

theorem stsb_label_range_counterexample:
  "load_data ''STS-B'' (Tuple [''mteb/stsbenchmark-sts''])
     (\<lambda>names sp. Inr [StsRow ''a'' ''b'' (PyFloat 7)]) ''train''
   = Inr [\<lparr>text1 = ''a'', text2 = ''b'', label = PyFloat 7\<rparr>]
   \<and> label \<lparr>text1 = ''a'', text2 = ''b'', label = PyFloat 7\<rparr> = PyFloat 7
   \<and> \<not> ((0::real) \<le> 7 \<and> (7::real) \<le> 5)"
  by (simp add: load_data_def make_sample_def make_label_def columns_def)

text \<open>
  C8, amended. For the STS-B task the loader returns one record per row of the split,
  and the label of each record is the float conversion of the \<open>score\<close> of its row; the
  loader applies no range check, so a label lies between 0.0 and 5.0 exactly when the
  score of the source row does.
\<close>

theorem stsb_label_is_float_of_score:
  assumes "ld (star tn) sp = Inr rows"
    and "load_data ''STS-B'' tn ld sp = Inr recs"
  shows "length recs = length rows
     \<and> (\<forall>i<length rows. \<exists>s1 s2 sc. rows ! i = StsRow s1 s2 sc
           \<and> recs ! i = \<lparr>text1 = s1, text2 = s2, label = PyFloat (py_float sc)\<rparr>)"
proof -
  from assms have "list_all2 (\<lambda>obj r. make_sample ''STS-B'' obj = Inr r) rows recs"
    by (simp add: load_data_def comprehension_Inr_iff)
  then show ?thesis
    by (simp add: list_all2_conv_all_nth make_sample_stsb)
qed

theorem stsb_label_is_float_of_score_witness:
  "load_data ''STS-B'' (Tuple [''mteb/stsbenchmark-sts''])
     (\<lambda>names sp. Inr [StsRow ''a'' ''b'' (PyInt 3)]) ''test''
   = Inr [\<lparr>text1 = ''a'', text2 = ''b'', label = PyFloat 3\<rparr>]
   \<and> length [\<lparr>text1 = ''a'', text2 = ''b'', label = PyFloat 3\<rparr>] = length [StsRow ''a'' ''b'' (PyInt 3)]
   \<and> (\<exists>s1 s2 sc. [StsRow ''a'' ''b'' (PyInt 3)] ! 0 = StsRow s1 s2 sc
         \<and> [\<lparr>text1 = ''a'', text2 = ''b'', label = PyFloat 3\<rparr>] ! 0
             = \<lparr>text1 = s1, text2 = s2, label = PyFloat (py_float sc)\<rparr>)"
proof -
  let ?ld = "\<lambda>(names :: string list) (sp :: string). (Inr [StsRow ''a'' ''b'' (PyInt 3)] :: error + hub_row list)"
  have h1: "?ld (star (Tuple [''mteb/stsbenchmark-sts''])) ''test'' = Inr [StsRow ''a'' ''b'' (PyInt 3)]"
    by simp
  have h2: "load_data ''STS-B'' (Tuple [''mteb/stsbenchmark-sts'']) ?ld ''test''
              = Inr [\<lparr>text1 = ''a'', text2 = ''b'', label = PyFloat 3\<rparr>]"
    by (simp add: load_data_def make_sample_def make_label_def columns_def)
  from stsb_label_is_float_of_score [OF h1 h2] h2 show ?thesis by simp
qed


section \<open>The skip-negative filter of the distilled STS-B loader\<close>

text \<open>
  C3. With \<open>skip_neg\<close> enabled, a successful \<open>load\<close> has read every file, parsed every
  non-blank line into an object, and returns the records of exactly those objects, in
  order, that do not have both a score equal to 0 and a word-set difference smaller than
  5. So a record is dropped only if its score is 0 and its word-set difference is below
  5, and an object whose word-set difference is at least 5 is never dropped.
\<close>

theorem skip_neg_filter:
  assumes "load fs loads paths True = Inr out"
  shows "\<exists>lss objs. map fs (case paths of OnePath p \<Rightarrow> [p] | ManyPaths ps \<Rightarrow> ps) = map Some lss
     \<and> map loads (filter (\<lambda>l. l \<noteq> []) (map strip (concat lss))) = map Some objs
     \<and> out = map obj_sample (filter (\<lambda>obj. \<not> (is_zero (score obj) \<and> word_diff obj < 5)) objs)
     \<and> (\<forall>obj\<in>set objs. 5 \<le> word_diff obj \<longrightarrow> obj_sample obj \<in> set out)"
proof -
  from assms obtain lss objs where
    l: "map fs (case paths of OnePath p \<Rightarrow> [p] | ManyPaths ps \<Rightarrow> ps) = map Some lss"
    and o: "map loads (filter (\<lambda>l. l \<noteq> []) (map strip (concat lss))) = map Some objs"
    and out: "out = map obj_sample (filter (\<lambda>obj. \<not> skipped True obj) objs)"
    unfolding load_def by (auto dest!: load_files_InrD)
  from out have out': "out = map obj_sample (filter (\<lambda>obj. \<not> (is_zero (score obj) \<and> word_diff obj < 5)) objs)"
    by (simp add: skipped_def)
  then have "\<forall>obj\<in>set objs. 5 \<le> word_diff obj \<longrightarrow> obj_sample obj \<in> set out"
    by auto
  with l o out' show ?thesis by blast
qed

theorem skip_neg_filter_witness:
  "load (\<lambda>p. if p = ''stsb.jsonl'' then Some ['' A '', ''B'', ''  '', ''C''] else None)
        (\<lambda>l. if l = ''A'' then Some \<lparr>sentence1 = ''a cat'', sentence2 = ''a dog'', score = PyInt 0\<rparr>
              else if l = ''B'' then Some \<lparr>sentence1 = ''one two three four five'', sentence2 = ''six'', score = PyFloat 0\<rparr>
              else if l = ''C'' then Some \<lparr>sentence1 = ''a cat'', sentence2 = ''a dog'', score = PyFloat 2.5\<rparr>
              else None)
        (OnePath ''stsb.jsonl'') True
   = Inr [\<lparr>text1 = ''one two three four five'', text2 = ''six'', label = PyFloat 0\<rparr>,
          \<lparr>text1 = ''a cat'', text2 = ''a dog'', label = PyFloat 2.5\<rparr>]
   \<and> (\<exists>objs. [\<lparr>text1 = ''one two three four five'', text2 = ''six'', label = PyFloat 0\<rparr>,
          \<lparr>text1 = ''a cat'', text2 = ''a dog'', label = PyFloat 2.5\<rparr>]
         = map obj_sample (filter (\<lambda>obj. \<not> (is_zero (score obj) \<and> word_diff obj < 5)) objs))"
proof -
  let ?fs = "\<lambda>p. if p = ''stsb.jsonl'' then Some ['' A '', ''B'', ''  '', ''C''] else None"
  let ?loads = "\<lambda>l. if l = ''A'' then Some \<lparr>sentence1 = ''a cat'', sentence2 = ''a dog'', score = PyInt 0\<rparr>
              else if l = ''B'' then Some \<lparr>sentence1 = ''one two three four five'', sentence2 = ''six'', score = PyFloat 0\<rparr>
              else if l = ''C'' then Some \<lparr>sentence1 = ''a cat'', sentence2 = ''a dog'', score = PyFloat 2.5\<rparr>
              else None"
  have h: "load ?fs ?loads (OnePath ''stsb.jsonl'') True
   = Inr [\<lparr>text1 = ''one two three four five'', text2 = ''six'', label = PyFloat 0\<rparr>,
          \<lparr>text1 = ''a cat'', text2 = ''a dog'', label = PyFloat 2.5\<rparr>]"
    by (simp add: load_def strip_def isspace_def skipped_def word_diff_def split_ws_def obj_sample_def)
  from skip_neg_filter [OF h] obtain lss objs where
    "[\<lparr>text1 = ''one two three four five'', text2 = ''six'', label = PyFloat 0\<rparr>,
      \<lparr>text1 = ''a cat'', text2 = ''a dog'', label = PyFloat 2.5\<rparr>]
     = map obj_sample (filter (\<lambda>obj. \<not> (is_zero (score obj) \<and> word_diff obj < 5)) objs)"
    by (elim exE conjE)
  then have ex: "\<exists>objs. [\<lparr>text1 = ''one two three four five'', text2 = ''six'', label = PyFloat 0\<rparr>,
      \<lparr>text1 = ''a cat'', text2 = ''a dog'', label = PyFloat 2.5\<rparr>]
     = map obj_sample (filter (\<lambda>obj. \<not> (is_zero (score obj) \<and> word_diff obj < 5)) objs)"
    by (rule exI)
  show ?thesis by (rule conjI [OF h ex])
qed


section \<open>Dataset assembly\<close>

text \<open>
  C10, as stated, says that a set \<open>debug_sample_size\<close> truncates the train partition to
  its first \<open>debug_sample_size\<close> records or leaves it whole. The script slices with
  \<open>train_data[:args.debug_sample_size]\<close>, and the argument may be negative: with \<open>-1\<close>
  a train partition of three records becomes its first two, which is neither the (empty)
  list of its first \<open>-1\<close> records nor the whole partition.
\<close>

theorem debug_sample_size_negative_counterexample:
  "assemble (Some (- 1))
     (Some [\<lparr>text1 = ''a'', text2 = ''b'', label = PyInt 1\<rparr>,
            \<lparr>text1 = ''c'', text2 = ''d'', label = PyInt 0\<rparr>,
            \<lparr>text1 = ''e'', text2 = ''f'', label = PyInt 1\<rparr>], None, None) ''train''
   = Some [\<lparr>text1 = ''a'', text2 = ''b'', label = PyInt 1\<rparr>,
           \<lparr>text1 = ''c'', text2 = ''d'', label = PyInt 0\<rparr>]
   \<and> take (nat (- 1))
        [\<lparr>text1 = ''a'', text2 = ''b'', label = PyInt 1\<rparr>,
         \<lparr>text1 = ''c'', text2 = ''d'', label = PyInt 0\<rparr>,
         \<lparr>text1 = ''e'', text2 = ''f'', label = PyInt 1\<rparr>] = []"
  by (simp add: assemble_def slice_to_def)

text \<open>
  C10, amended. When \<open>debug_sample_size\<close> is set to \<open>n\<close>, only the train partition is
  changed: for \<open>n \<ge> 0\<close> it is truncated to its first \<open>n\<close> records (left whole if
  shorter), for \<open>n < 0\<close> it loses its last \<open>-n\<close> records. When it is not set the train
  partition is unchanged. The validation and test partitions reach the dataset
  unchanged in every case.
\<close>

theorem debug_sample_size_truncates_train:
  "assemble (Some n) (Some tr, va, te) ''train''
     = Some (if 0 \<le> n then take (nat n) tr else take (length tr - nat (- n)) tr)
   \<and> assemble None (Some tr, va, te) ''train'' = Some tr
   \<and> assemble dss (trd, va, te) ''validation'' = va
   \<and> assemble dss (trd, va, te) ''test'' = te"
proof -
  have "n < 0 \<Longrightarrow> nat (int (length tr) + n) = length tr - nat (- n)"
    by linarith
  then show ?thesis
    by (simp add: assemble_train assemble_validation assemble_test slice_to_def)
qed

text \<open>
  C9. For the tasks QQP, QNLI and RTE, when the three splits load, the test partition
  is the list loaded for the validation split, and so is the validation partition; the
  dataset assembler receives that same list under \<open>'validation'\<close> and under \<open>'test'\<close>.
  The list loaded for the test split is not used.
\<close>

theorem test_partition_is_validation:
  assumes "task a \<in> set [''QQP'', ''QNLI'', ''RTE'']"
    and "load_splits a tn w = Inr (train_data, valid_data, test_data)"
  shows "\<exists>v. load_data (task a) tn (load_dataset w) ''validation'' = Inr v
     \<and> valid_data = Some v \<and> test_data = Some v
     \<and> assemble dss (train_data, valid_data, test_data) ''validation'' = Some v
     \<and> assemble dss (train_data, valid_data, test_data) ''test'' = Some v"
proof -
  from assms(1) have "task a \<noteq> ''NLI-STS''" by auto
  with assms show ?thesis
    by (auto simp: load_splits_def assemble_validation assemble_test split: sum.splits)
qed

theorem test_partition_is_validation_witness:
  "task \<lparr>mode = ''test'', task = ''QQP'', save_dir = Some ''out'', do_eval = 1,
          debug_sample_size = None, model_name = ''bert-base-uncased''\<rparr>
     \<in> set [''QQP'', ''QNLI'', ''RTE'']
   \<and> load_splits
        \<lparr>mode = ''test'', task = ''QQP'', save_dir = Some ''out'', do_eval = 1,
          debug_sample_size = None, model_name = ''bert-base-uncased''\<rparr>
        (Tuple [''SetFit/qqp''])
        \<lparr>load_dataset = (\<lambda>names sp.
             if sp = ''train'' then Inr [GlueRow ''a'' ''b'' 1]
             else if sp = ''validation'' then Inr [GlueRow ''c'' ''d'' 0]
             else Inr [GlueRow ''e'' ''f'' 1]),
          nli_tsv = Inr [], angle_init = (\<lambda>lora. None), from_pretrained = (\<lambda>dir. None),
          shuffle = rev, fit = (\<lambda>tr va. None), evaluate = (\<lambda>te. None)\<rparr>
      = Inr (Some [\<lparr>text1 = ''a'', text2 = ''b'', label = PyInt 1\<rparr>],
             Some [\<lparr>text1 = ''c'', text2 = ''d'', label = PyInt 0\<rparr>],
             Some [\<lparr>text1 = ''c'', text2 = ''d'', label = PyInt 0\<rparr>])
   \<and> assemble None
        (Some [\<lparr>text1 = ''a'', text2 = ''b'', label = PyInt 1\<rparr>],
         Some [\<lparr>text1 = ''c'', text2 = ''d'', label = PyInt 0\<rparr>],
         Some [\<lparr>text1 = ''c'', text2 = ''d'', label = PyInt 0\<rparr>]) ''test''
      = Some [\<lparr>text1 = ''c'', text2 = ''d'', label = PyInt 0\<rparr>]"
proof -
  let ?a = "\<lparr>mode = ''test'', task = ''QQP'', save_dir = Some ''out'', do_eval = 1,
          debug_sample_size = None, model_name = ''bert-base-uncased''\<rparr>"
  let ?w = "\<lparr>load_dataset = (\<lambda>names sp.
             if sp = ''train'' then Inr [GlueRow ''a'' ''b'' 1]
             else if sp = ''validation'' then Inr [GlueRow ''c'' ''d'' 0]
             else Inr [GlueRow ''e'' ''f'' 1]),
          nli_tsv = Inr [], angle_init = (\<lambda>lora. None), from_pretrained = (\<lambda>dir. None),
          shuffle = rev, fit = (\<lambda>tr va. None), evaluate = (\<lambda>te. None)\<rparr>"
  have h1: "task ?a \<in> set [''QQP'', ''QNLI'', ''RTE'']" by simp
  have h2: "load_splits ?a (Tuple [''SetFit/qqp'']) ?w
      = Inr (Some [\<lparr>text1 = ''a'', text2 = ''b'', label = PyInt 1\<rparr>],
             Some [\<lparr>text1 = ''c'', text2 = ''d'', label = PyInt 0\<rparr>],
             Some [\<lparr>text1 = ''c'', text2 = ''d'', label = PyInt 0\<rparr>])"
    by (simp add: load_splits_def load_data_def make_sample_def make_label_def columns_def
          remap_label_def label_mapping_def dict_get_def)
  from test_partition_is_validation [OF h1 h2, of None]
  have h3: "assemble None
        (Some [\<lparr>text1 = ''a'', text2 = ''b'', label = PyInt 1\<rparr>],
         Some [\<lparr>text1 = ''c'', text2 = ''d'', label = PyInt 0\<rparr>],
         Some [\<lparr>text1 = ''c'', text2 = ''d'', label = PyInt 0\<rparr>]) ''test''
      = Some [\<lparr>text1 = ''c'', text2 = ''d'', label = PyInt 0\<rparr>]"
    by auto
  show ?thesis by (rule conjI [OF h1 conjI [OF h2 h3]])
qed

section \<open>Unrecognized task or mode\<close>

text \<open>
  C2, as stated, says that an unrecognized mode fails at the final mode dispatch with a
  configuration error. The splits are loaded before the mode is dispatched, so a loader
  error comes first: with the mode \<open>eval\<close>, the task \<open>NLI-STS\<close> and no
  \<open>./data/AllNLI.tsv.gz\<close> the run ends with the \<open>FileNotFoundError\<close> of the loader, not
  with the \<open>ValueError\<close> of the dispatch.
\<close>

theorem unsupported_mode_loader_error_counterexample:
  "mode \<lparr>mode = ''eval'', task = ''NLI-STS'', save_dir = None, do_eval = 1,
          debug_sample_size = None, model_name = ''bert-base-uncased''\<rparr>
     \<notin> {''train'', ''test'', ''test_csts''}
   \<and> main \<lparr>mode = ''eval'', task = ''NLI-STS'', save_dir = None, do_eval = 1,
            debug_sample_size = None, model_name = ''bert-base-uncased''\<rparr>
          \<lparr>load_dataset = (\<lambda>names sp. Inr [StsRow ''a'' ''b'' (PyFloat 2.5)]),
            nli_tsv = Inl (FileNotFoundError ''./data/AllNLI.tsv.gz''),
            angle_init = (\<lambda>lora. None), from_pretrained = (\<lambda>dir. None),
            shuffle = rev, fit = (\<lambda>tr va. None), evaluate = (\<lambda>te. None)\<rparr>
       = ([], Some (FileNotFoundError ''./data/AllNLI.tsv.gz''))
   \<and> FileNotFoundError ''./data/AllNLI.tsv.gz'' \<noteq> ValueError ''not support eval''"
  by (simp add: main_def TASK_MAPPING_def load_splits_def load_nli_data_def)

text \<open>
  C2, amended. A task name that is not a key of \<open>TASK_MAPPING\<close> ends the run with the
  \<open>AssertionError\<close> of the task check, before anything is loaded or any library call is
  made. A mode other than \<open>train\<close>, \<open>test\<close> and \<open>test_csts\<close> ends the run with an
  exception and without any call into the library (no training, no evaluation): the
  \<open>AssertionError\<close> of the task check when the task is unrecognized, else the error of
  the loader when a split does not load, else the \<open>ValueError\<close> raised by the final
  \<open>else\<close> of the mode dispatch.
\<close>

theorem unrecognized_task_or_mode_raises:
  "(task a \<notin> set (map fst TASK_MAPPING) \<longrightarrow> main a w = ([], Some AssertionError))
   \<and> (mode a \<notin> {''train'', ''test'', ''test_csts''} \<longrightarrow>
        main a w =
          ([], Some (case map_of TASK_MAPPING (task a) of
                       None \<Rightarrow> AssertionError
                     | Some tn \<Rightarrow>
                         (case load_splits a tn w of
                            Inl e \<Rightarrow> e
                          | Inr parts \<Rightarrow> ValueError (''not support '' @ mode a))))
        \<and> fst (main a w) = [] \<and> (\<exists>e. snd (main a w) = Some e)
        \<and> (\<forall>tn parts. map_of TASK_MAPPING (task a) = Some tn \<and> load_splits a tn w = Inr parts
              \<longrightarrow> main a w = ([], Some (ValueError (''not support '' @ mode a)))))"
  using main_unknown_task [of a w] main_unknown_mode [of a w] main_unknown_mode_loaded [of a _ w]
    main_unknown_mode_exact [of a w]
  by blast


theorem unrecognized_task_or_mode_raises_witness:
  "task \<lparr>mode = ''train'', task = ''STS'', save_dir = None, do_eval = 1,
          debug_sample_size = None, model_name = ''bert-base-uncased''\<rparr>
     \<notin> set (map fst TASK_MAPPING)
   \<and> main \<lparr>mode = ''train'', task = ''STS'', save_dir = None, do_eval = 1,
            debug_sample_size = None, model_name = ''bert-base-uncased''\<rparr>
          \<lparr>load_dataset = (\<lambda>names sp. Inr [StsRow ''a'' ''b'' (PyFloat 2.5)]),
            nli_tsv = Inr [], angle_init = (\<lambda>lora. None), from_pretrained = (\<lambda>dir. None),
            shuffle = rev, fit = (\<lambda>tr va. None), evaluate = (\<lambda>te. None)\<rparr>
       = ([], Some AssertionError)
   \<and> mode \<lparr>mode = ''eval'', task = ''STS-B'', save_dir = None, do_eval = 1,
            debug_sample_size = None, model_name = ''bert-base-uncased''\<rparr>
     \<notin> {''train'', ''test'', ''test_csts''}
   \<and> main \<lparr>mode = ''eval'', task = ''STS-B'', save_dir = None, do_eval = 1,
            debug_sample_size = None, model_name = ''bert-base-uncased''\<rparr>
          \<lparr>load_dataset = (\<lambda>names sp. Inr [StsRow ''a'' ''b'' (PyFloat 2.5)]),
            nli_tsv = Inr [], angle_init = (\<lambda>lora. None), from_pretrained = (\<lambda>dir. None),
            shuffle = rev, fit = (\<lambda>tr va. None), evaluate = (\<lambda>te. None)\<rparr>
       = ([], Some (ValueError ''not support eval''))"
proof -
  let ?a1 = "\<lparr>mode = ''train'', task = ''STS'', save_dir = None, do_eval = 1,
          debug_sample_size = None, model_name = ''bert-base-uncased''\<rparr>"
  let ?a2 = "\<lparr>mode = ''eval'', task = ''STS-B'', save_dir = None, do_eval = 1,
            debug_sample_size = None, model_name = ''bert-base-uncased''\<rparr>"
  let ?w = "\<lparr>load_dataset = (\<lambda>names sp. Inr [StsRow ''a'' ''b'' (PyFloat 2.5)]),
            nli_tsv = Inr [], angle_init = (\<lambda>lora. None), from_pretrained = (\<lambda>dir. None),
            shuffle = rev, fit = (\<lambda>tr va. None), evaluate = (\<lambda>te. None)\<rparr>"
  have h1: "task ?a1 \<notin> set (map fst TASK_MAPPING)" by (simp add: TASK_MAPPING_def)
  have h2: "mode ?a2 \<notin> {''train'', ''test'', ''test_csts''}" by simp
  have h3: "map_of TASK_MAPPING (task ?a2) = Some (Tuple [''mteb/stsbenchmark-sts''])"
    by (simp add: TASK_MAPPING_def)
  have h4: "load_splits ?a2 (Tuple [''mteb/stsbenchmark-sts'']) ?w
     = Inr (Some [\<lparr>text1 = ''a'', text2 = ''b'', label = PyFloat 2.5\<rparr>],
            Some [\<lparr>text1 = ''a'', text2 = ''b'', label = PyFloat 2.5\<rparr>],
            Some [\<lparr>text1 = ''a'', text2 = ''b'', label = PyFloat 2.5\<rparr>])"
    by (simp add: load_splits_def load_data_def make_sample_def make_label_def columns_def)
  have c1: "main ?a1 ?w = ([], Some AssertionError)"
    using unrecognized_task_or_mode_raises [of ?a1 ?w] h1 by blast
  have c2: "main ?a2 ?w = ([], Some (ValueError (''not support '' @ mode ?a2)))"
    using unrecognized_task_or_mode_raises [of ?a2 ?w] h2 h3 h4 by blast
  then have c2': "main ?a2 ?w = ([], Some (ValueError ''not support eval''))" by simp
  show ?thesis by (rule conjI [OF h1 conjI [OF c1 conjI [OF h2 c2']]])
qed

section \<open>The C-STS test mode\<close>

text \<open>
  C6. In the mode \<open>test_csts\<close> the run never ends normally and never writes a file:
  whatever the arguments and the world, it ends with an exception, and when the task is
  recognized, the splits load and the model loads, the exception is the \<open>NameError\<close> for
  \<open>csts_test_data\<close>.
\<close>

theorem test_csts_raises_name_error:
  assumes "mode a = ''test_csts''"
  shows "(\<exists>e. snd (main a w) = Some e) \<and> (\<forall>p r. WriteJson p r \<notin> set (fst (main a w)))
     \<and> (\<forall>tn parts. map_of TASK_MAPPING (task a) = Some tn \<and> load_splits a tn w = Inr parts
            \<and> from_pretrained w (save_dir a) = None
          \<longrightarrow> main a w = ([FromPretrained (save_dir a)], Some (NameError ''csts_test_data'')))"
  using assms main_test_csts [of a w]
  by (auto simp: main_def Let_def run_test_csts_def)

theorem test_csts_raises_name_error_witness:
  "mode \<lparr>mode = ''test_csts'', task = ''STS-B'', save_dir = Some ''out'', do_eval = 1,
          debug_sample_size = None, model_name = ''bert-base-uncased''\<rparr> = ''test_csts''
   \<and> main \<lparr>mode = ''test_csts'', task = ''STS-B'', save_dir = Some ''out'', do_eval = 1,
            debug_sample_size = None, model_name = ''bert-base-uncased''\<rparr>
          \<lparr>load_dataset = (\<lambda>names sp. Inr [StsRow ''a'' ''b'' (PyFloat 2.5)]),
            nli_tsv = Inr [], angle_init = (\<lambda>lora. None), from_pretrained = (\<lambda>dir. None),
            shuffle = rev, fit = (\<lambda>tr va. None), evaluate = (\<lambda>te. None)\<rparr>
       = ([FromPretrained (Some ''out'')], Some (NameError ''csts_test_data''))"
proof -
  let ?a = "\<lparr>mode = ''test_csts'', task = ''STS-B'', save_dir = Some ''out'', do_eval = 1,
          debug_sample_size = None, model_name = ''bert-base-uncased''\<rparr>"
  let ?w = "\<lparr>load_dataset = (\<lambda>names sp. Inr [StsRow ''a'' ''b'' (PyFloat 2.5)]),
            nli_tsv = Inr [], angle_init = (\<lambda>lora. None), from_pretrained = (\<lambda>dir. None),
            shuffle = rev, fit = (\<lambda>tr va. None), evaluate = (\<lambda>te. None)\<rparr>"
  have h1: "mode ?a = ''test_csts''" by simp
  have h3: "map_of TASK_MAPPING (task ?a) = Some (Tuple [''mteb/stsbenchmark-sts''])"
    by (simp add: TASK_MAPPING_def)
  have h4: "load_splits ?a (Tuple [''mteb/stsbenchmark-sts'']) ?w
     = Inr (Some [\<lparr>text1 = ''a'', text2 = ''b'', label = PyFloat 2.5\<rparr>],
            Some [\<lparr>text1 = ''a'', text2 = ''b'', label = PyFloat 2.5\<rparr>],
            Some [\<lparr>text1 = ''a'', text2 = ''b'', label = PyFloat 2.5\<rparr>])"
    by (simp add: load_splits_def load_data_def make_sample_def make_label_def columns_def)
  have h5: "from_pretrained ?w (save_dir ?a) = None" by simp
  have "main ?a ?w = ([FromPretrained (save_dir ?a)], Some (NameError ''csts_test_data''))"
    using test_csts_raises_name_error [OF h1, of ?w] h3 h4 h5 by blast
  then have c: "main ?a ?w = ([FromPretrained (Some ''out'')], Some (NameError ''csts_test_data''))"
    by simp
  show ?thesis by (rule conjI [OF h1 c])
qed


section \<open>The text fields of a normalized record\<close>

text \<open>
  C5, as stated, asks that \<open>text1\<close> and \<open>text2\<close> are non-empty after trimming. No loader
  checks for emptiness: the hub loader copies an empty \<open>text1\<close> column, and the NLI loader
  trims a blank \<open>sentence1\<close> to the empty string and appends the record.
\<close>

theorem text_fields_may_be_empty_counterexample:
  "load_data ''MRPC'' (Tuple [''SetFit/mrpc'']) (\<lambda>names sp. Inr [GlueRow '''' ''b'' 1]) ''train''
     = Inr [\<lparr>text1 = '''', text2 = ''b'', label = PyInt 1\<rparr>]
   \<and> load_all_nli True
        [\<lparr>nli_split = ''train'', nli_label = ''entailment'', nli_sentence1 = ''  '',
          nli_sentence2 = ''b''\<rparr>] []
     = Inr [\<lparr>text1 = '''', text2 = ''b'', label = PyInt 1\<rparr>]
   \<and> strip (text1 \<lparr>text1 = '''', text2 = ''b'', label = PyInt 1\<rparr>) = ''''"
  by (simp add: load_data_def make_sample_def make_label_def columns_def remap_label_def
        label_mapping_def dict_get_def nli_body_def nli_label_mapping_def strip_def isspace_def)

text \<open>
  C5, amended. For every normalized record produced by any loading strategy, the fields
  \<open>text1\<close> and \<open>text2\<close> are present and are the two sentence columns of the source row
  the record stands for, row by row and in order: copied as they are by the hub loaders
  (\<open>load_data\<close>, the hub branch of \<open>load_stsb_llm\<close>, \<open>load_sts\<close>) and by the JSONL
  loader (for the objects of the non-blank lines of the files that the filter keeps),
  and trimmed of surrounding whitespace by the gzip-TSV loader (for the training rows not
  labelled neutral) and by the CSV loader of C-STS. No loader checks for emptiness:
  trimming is idempotent, so a text field is non-empty after trimming exactly when its
  source column is.
\<close>

theorem text_fields_are_source_columns:
  "(ld (star tn) sp = Inr rows \<and> load_data tk tn ld sp = Inr recs \<longrightarrow>
      list_all2 (\<lambda>obj r. getitem_text obj (fst (columns tk)) = Inr (text1 r)
                       \<and> getitem_text obj (snd (columns tk)) = Inr (text2 r)) rows recs)
   \<and> (sp \<noteq> ''train'' \<and> ld [''./data/mteb___stsbenchmark-sts''] sp = Inr rows
        \<and> load_stsb_llm tk fs loads ld sp = Inr recs \<longrightarrow>
      list_all2 (\<lambda>obj r. getitem_text obj ''sentence1'' = Inr (text1 r)
                       \<and> getitem_text obj ''sentence2'' = Inr (text2 r)) rows recs)
   \<and> (load_stsb_llm tk fs loads ld ''train'' = Inr recs \<longrightarrow>
        (\<exists>paths sk. load fs loads paths sk = Inr recs))
   \<and> (load fs loads paths sk = Inr out \<longrightarrow>
        (\<exists>lss objs. map fs (case paths of OnePath p \<Rightarrow> [p] | ManyPaths ps \<Rightarrow> ps) = map Some lss
           \<and> map loads (filter (\<lambda>l. l \<noteq> []) (map strip (concat lss))) = map Some objs
           \<and> list_all2 (\<lambda>obj r. text1 r = sentence1 obj \<and> text2 r = sentence2 obj)
                (filter (\<lambda>obj. \<not> skipped sk obj) objs) out))
   \<and> (load_all_nli ex nrows [] = Inr nout \<longrightarrow>
        list_all2 (\<lambda>row r. text1 r = strip (nli_sentence1 row) \<and> text2 r = strip (nli_sentence2 row)
            \<and> strip (text1 r) = strip (nli_sentence1 row)
            \<and> strip (text2 r) = strip (nli_sentence2 row))
          (filter (\<lambda>row. nli_split row = ''train'' \<and> nli_label row \<noteq> ''neutral'') nrows) nout)
   \<and> (load_sts ld sts_paths [] = Inr srecs \<longrightarrow>
        (\<exists>rowss. map (\<lambda>p. ld [p] ''test'') sts_paths = map Inr rowss
           \<and> list_all2 (\<lambda>obj r. getitem_text obj ''sentence1'' = Inr (text1 r)
                       \<and> getitem_text obj ''sentence2'' = Inr (text2 r)) (concat rowss) srecs))
   \<and> (load_nli_data ex tsv ld = Inr (nli, sts) \<longrightarrow>
        (\<exists>trows. tsv = Inr trows \<and> load_all_nli ex trows [] = Inr nli)
        \<and> load_sts ld sts_paths [] = Inr sts)
   \<and> list_all2 (\<lambda>obj r. text1 r = strip (csts_sentence1 obj) \<and> text2 r = strip (csts_sentence2 obj)
        \<and> strip (text1 r) = strip (csts_sentence1 obj)
        \<and> strip (text2 r) = strip (csts_sentence2 obj)) ds (csts_load_data ds)
   \<and> (load_csts_data cd = Inr (ctr, cva, cte) \<longrightarrow>
        (\<exists>tr va te. cd = Inr (tr, va, te) \<and> ctr = csts_load_data tr \<and> cva = csts_load_data va
           \<and> cte = csts_load_data te))
   \<and> strip (strip s) = strip s"
proof (intro conjI impI)
  assume "ld (star tn) sp = Inr rows \<and> load_data tk tn ld sp = Inr recs"
  then have "list_all2 (\<lambda>obj r. make_sample tk obj = Inr r) rows recs"
    by (auto simp: load_data_def comprehension_Inr_iff)
  then show "list_all2 (\<lambda>obj r. getitem_text obj (fst (columns tk)) = Inr (text1 r)
                       \<and> getitem_text obj (snd (columns tk)) = Inr (text2 r)) rows recs"
    by (rule list_all2_mono) (auto dest!: make_sample_texts)
next
  assume "sp \<noteq> ''train'' \<and> ld [''./data/mteb___stsbenchmark-sts''] sp = Inr rows
        \<and> load_stsb_llm tk fs loads ld sp = Inr recs"
  then have "list_all2 (\<lambda>obj r. sts_sample obj = Inr r) rows recs"
    by (auto simp: load_stsb_llm_def comprehension_Inr_iff)
  then show "list_all2 (\<lambda>obj r. getitem_text obj ''sentence1'' = Inr (text1 r)
                       \<and> getitem_text obj ''sentence2'' = Inr (text2 r)) rows recs"
    by (rule list_all2_mono) (auto dest!: sts_sample_texts)
next
  assume "load_stsb_llm tk fs loads ld ''train'' = Inr recs"
  then show "\<exists>paths sk. load fs loads paths sk = Inr recs" by (rule load_stsb_llm_train)
next
  assume "load fs loads paths sk = Inr out"
  then show "\<exists>lss objs. map fs (case paths of OnePath p \<Rightarrow> [p] | ManyPaths ps \<Rightarrow> ps) = map Some lss
           \<and> map loads (filter (\<lambda>l. l \<noteq> []) (map strip (concat lss))) = map Some objs
           \<and> list_all2 (\<lambda>obj r. text1 r = sentence1 obj \<and> text2 r = sentence2 obj)
                (filter (\<lambda>obj. \<not> skipped sk obj) objs) out"
    by (rule load_texts)
next
  assume "load_all_nli ex nrows [] = Inr nout"
  then show "list_all2 (\<lambda>row r. text1 r = strip (nli_sentence1 row) \<and> text2 r = strip (nli_sentence2 row)
            \<and> strip (text1 r) = strip (nli_sentence1 row)
            \<and> strip (text2 r) = strip (nli_sentence2 row))
          (filter (\<lambda>row. nli_split row = ''train'' \<and> nli_label row \<noteq> ''neutral'') nrows) nout"
    by (rule load_all_nli_texts)
next
  assume "load_sts ld sts_paths [] = Inr srecs"
  then show "\<exists>rowss. map (\<lambda>p. ld [p] ''test'') sts_paths = map Inr rowss
           \<and> list_all2 (\<lambda>obj r. getitem_text obj ''sentence1'' = Inr (text1 r)
                       \<and> getitem_text obj ''sentence2'' = Inr (text2 r)) (concat rowss) srecs"
    by (rule load_sts_texts)
next
  assume a: "load_nli_data ex tsv ld = Inr (nli, sts)"
  from load_nli_data_parts [OF a]
  show "\<exists>trows. tsv = Inr trows \<and> load_all_nli ex trows [] = Inr nli" by blast
  from load_nli_data_parts [OF a]
  show "load_sts ld sts_paths [] = Inr sts" by blast
next
  show "list_all2 (\<lambda>obj r. text1 r = strip (csts_sentence1 obj) \<and> text2 r = strip (csts_sentence2 obj)
        \<and> strip (text1 r) = strip (csts_sentence1 obj)
        \<and> strip (text2 r) = strip (csts_sentence2 obj)) ds (csts_load_data ds)"
    by (rule csts_load_data_texts)
next
  assume "load_csts_data cd = Inr (ctr, cva, cte)"
  then show "\<exists>tr va te. cd = Inr (tr, va, te) \<and> ctr = csts_load_data tr \<and> cva = csts_load_data va
           \<and> cte = csts_load_data te"
    by (rule load_csts_data_parts)
next
  show "strip (strip s) = strip s" by (rule strip_idem)
qed

theorem text_fields_are_source_columns_witness:
  "load_data ''STS-B'' (Tuple [''mteb/stsbenchmark-sts''])
       (\<lambda>names sp. Inr [StsRow ''a'' ''b'' (PyFloat 1)]) ''test''
     = Inr [\<lparr>text1 = ''a'', text2 = ''b'', label = PyFloat 1\<rparr>]
   \<and> getitem_text (StsRow ''a'' ''b'' (PyFloat 1)) (fst (columns ''STS-B'')) = Inr ''a''
   \<and> load_stsb_llm ''STS-B-ALL'' (\<lambda>p. Some ['' A ''])
        (\<lambda>l. if l = ''A'' then Some \<lparr>sentence1 = ''a cat'', sentence2 = ''a dog'', score = PyInt 3\<rparr>
              else None)
        (\<lambda>names sp. Inr [StsRow ''a'' ''b'' (PyFloat 1)]) ''test''
     = Inr [\<lparr>text1 = ''a'', text2 = ''b'', label = PyFloat 1\<rparr>]
   \<and> getitem_text (StsRow ''a'' ''b'' (PyFloat 1)) ''sentence2'' = Inr ''b''
   \<and> load_stsb_llm ''STS-B-ChatGLM'' (\<lambda>p. Some ['' A ''])
        (\<lambda>l. if l = ''A'' then Some \<lparr>sentence1 = ''a cat'', sentence2 = ''a dog'', score = PyInt 3\<rparr>
              else None)
        (\<lambda>names sp. Inr [StsRow ''a'' ''b'' (PyFloat 1)]) ''train''
     = Inr [\<lparr>text1 = ''a cat'', text2 = ''a dog'', label = PyFloat 3\<rparr>]
   \<and> (\<exists>paths sk. load (\<lambda>p. Some ['' A ''])
        (\<lambda>l. if l = ''A'' then Some \<lparr>sentence1 = ''a cat'', sentence2 = ''a dog'', score = PyInt 3\<rparr>
              else None) paths sk
         = Inr [\<lparr>text1 = ''a cat'', text2 = ''a dog'', label = PyFloat 3\<rparr>])
   \<and> load (\<lambda>p. Some ['' A ''])
        (\<lambda>l. if l = ''A'' then Some \<lparr>sentence1 = ''a cat'', sentence2 = ''a dog'', score = PyInt 3\<rparr>
              else None)
        (OnePath ''stsb.jsonl'') False
     = Inr [\<lparr>text1 = ''a cat'', text2 = ''a dog'', label = PyFloat 3\<rparr>]
   \<and> (\<exists>lss objs.
         map (\<lambda>p. Some ['' A '']) (case OnePath ''stsb.jsonl'' of OnePath p \<Rightarrow> [p] | ManyPaths ps \<Rightarrow> ps)
           = map Some lss
         \<and> map (\<lambda>l. if l = ''A''
                       then Some \<lparr>sentence1 = ''a cat'', sentence2 = ''a dog'', score = PyInt 3\<rparr>
                       else None)
               (filter (\<lambda>l. l \<noteq> []) (map strip (concat lss))) = map Some objs
         \<and> list_all2 (\<lambda>obj r. text1 r = sentence1 obj \<and> text2 r = sentence2 obj)
              (filter (\<lambda>obj. \<not> skipped False obj) objs)
              [\<lparr>text1 = ''a cat'', text2 = ''a dog'', label = PyFloat 3\<rparr>])
   \<and> load_all_nli True
        [\<lparr>nli_split = ''train'', nli_label = ''entailment'', nli_sentence1 = '' a man '',
          nli_sentence2 = ''a person''\<rparr>] []
     = Inr [\<lparr>text1 = ''a man'', text2 = ''a person'', label = PyInt 1\<rparr>]
   \<and> ''a man'' = strip '' a man ''
   \<and> load_sts (\<lambda>names sp. Inr [StsRow ''a'' ''b'' (PyFloat 1)]) sts_paths []
     = Inr (replicate 7 \<lparr>text1 = ''a'', text2 = ''b'', label = PyFloat 1\<rparr>)
   \<and> (\<exists>rowss. map (\<lambda>p. Inr [StsRow ''a'' ''b'' (PyFloat 1)]) sts_paths
           = map (Inr :: hub_row list \<Rightarrow> error + hub_row list) rowss
         \<and> list_all2 (\<lambda>obj r. getitem_text obj ''sentence1'' = Inr (text1 r)
                       \<and> getitem_text obj ''sentence2'' = Inr (text2 r)) (concat rowss)
              (replicate 7 \<lparr>text1 = ''a'', text2 = ''b'', label = PyFloat 1\<rparr>))
   \<and> load_nli_data True
        (Inr [\<lparr>nli_split = ''train'', nli_label = ''entailment'', nli_sentence1 = '' a man '',
               nli_sentence2 = ''a person''\<rparr>])
        (\<lambda>names sp. Inr [StsRow ''a'' ''b'' (PyFloat 1)])
     = Inr ([\<lparr>text1 = ''a man'', text2 = ''a person'', label = PyInt 1\<rparr>],
            replicate 7 \<lparr>text1 = ''a'', text2 = ''b'', label = PyFloat 1\<rparr>)
   \<and> (\<exists>trows. load_all_nli True trows []
         = Inr [\<lparr>text1 = ''a man'', text2 = ''a person'', label = PyInt 1\<rparr>])
   \<and> csts_load_data [\<lparr>csts_sentence1 = ''a man '', csts_sentence2 = ''a dog'',
                       csts_condition = ''animal'', csts_label = PyInt 3\<rparr>]
     = [\<lparr>text1 = ''a man'', text2 = ''a dog'', label = PyInt 3, condition = ''animal''\<rparr>]
   \<and> ''a man'' = strip ''a man ''
   \<and> load_csts_data (Inr ([\<lparr>csts_sentence1 = ''a man '', csts_sentence2 = ''a dog'',
                       csts_condition = ''animal'', csts_label = PyInt 3\<rparr>], [], []))
     = Inr ([\<lparr>text1 = ''a man'', text2 = ''a dog'', label = PyInt 3, condition = ''animal''\<rparr>], [], [])
   \<and> (\<exists>tr. [\<lparr>text1 = ''a man'', text2 = ''a dog'', label = PyInt 3, condition = ''animal''\<rparr>]
         = csts_load_data tr)"
proof -
  let ?ld = "\<lambda>(names :: string list) (sp :: string).
     (Inr [StsRow ''a'' ''b'' (PyFloat 1)] :: error + hub_row list)"
  let ?fs = "\<lambda>p :: string. Some ['' A '']"
  let ?loads = "\<lambda>l. if l = ''A'' then Some \<lparr>sentence1 = ''a cat'', sentence2 = ''a dog'', score = PyInt 3\<rparr>
              else None"
  let ?hr = "\<lparr>text1 = ''a'', text2 = ''b'', label = PyFloat 1\<rparr>"
  let ?jr = "\<lparr>text1 = ''a cat'', text2 = ''a dog'', label = PyFloat 3\<rparr>"
  let ?nrows = "[\<lparr>nli_split = ''train'', nli_label = ''entailment'', nli_sentence1 = '' a man '',
          nli_sentence2 = ''a person''\<rparr>]"
  let ?nr = "\<lparr>text1 = ''a man'', text2 = ''a person'', label = PyInt 1\<rparr>"
  let ?ds = "[\<lparr>csts_sentence1 = ''a man '', csts_sentence2 = ''a dog'',
                   csts_condition = ''animal'', csts_label = PyInt 3\<rparr>]"
  let ?cr = "\<lparr>text1 = ''a man'', text2 = ''a dog'', label = PyInt 3, condition = ''animal''\<rparr>"
  have h1: "load_data ''STS-B'' (Tuple [''mteb/stsbenchmark-sts'']) ?ld ''test'' = Inr [?hr]"
    by (simp add: load_data_def make_sample_def make_label_def columns_def)
  have c1: "getitem_text (StsRow ''a'' ''b'' (PyFloat 1)) (fst (columns ''STS-B'')) = Inr ''a''"
    using text_fields_are_source_columns [where ld = ?ld and tn = "Tuple [''mteb/stsbenchmark-sts'']"
        and sp = "''test''" and rows = "[StsRow ''a'' ''b'' (PyFloat 1)]" and tk = "''STS-B''"
        and recs = "[?hr]", THEN conjunct1] h1
    by simp
  have h2: "load_stsb_llm ''STS-B-ALL'' ?fs ?loads ?ld ''test'' = Inr [?hr]"
    by (simp add: load_stsb_llm_def sts_sample_def)
  have c2: "getitem_text (StsRow ''a'' ''b'' (PyFloat 1)) ''sentence2'' = Inr ''b''"
    using text_fields_are_source_columns [where ld = ?ld and sp = "''test''"
        and rows = "[StsRow ''a'' ''b'' (PyFloat 1)]" and tk = "''STS-B-ALL''"
        and fs = ?fs and loads = ?loads and recs = "[?hr]", THEN conjunct2, THEN conjunct1] h2
    by simp
  have h4: "load ?fs ?loads (OnePath ''stsb.jsonl'') False = Inr [?jr]"
    by (simp add: load_def strip_def isspace_def skipped_def obj_sample_def)
  have h3: "load_stsb_llm ''STS-B-ChatGLM'' ?fs ?loads ?ld ''train'' = Inr [?jr]"
    by (simp add: load_stsb_llm_def load_def strip_def isspace_def skipped_def obj_sample_def)
  have c3: "\<exists>paths sk. load ?fs ?loads paths sk = Inr [?jr]"
    by (rule text_fields_are_source_columns
          [THEN conjunct2, THEN conjunct2, THEN conjunct1, THEN mp, OF h3])
  have c4: "\<exists>lss objs.
         map ?fs (case OnePath ''stsb.jsonl'' of OnePath p \<Rightarrow> [p] | ManyPaths ps \<Rightarrow> ps)
           = map Some lss
         \<and> map ?loads (filter (\<lambda>l. l \<noteq> []) (map strip (concat lss))) = map Some objs
         \<and> list_all2 (\<lambda>obj r. text1 r = sentence1 obj \<and> text2 r = sentence2 obj)
              (filter (\<lambda>obj. \<not> skipped False obj) objs) [?jr]"
    by (rule text_fields_are_source_columns
          [THEN conjunct2, THEN conjunct2, THEN conjunct2, THEN conjunct1, THEN mp, OF h4])
  have h5: "load_all_nli True ?nrows [] = Inr [?nr]"
    by (simp add: nli_body_def nli_label_mapping_def strip_def isspace_def)
  have c5: "''a man'' = strip '' a man ''"
    using text_fields_are_source_columns
      [THEN conjunct2, THEN conjunct2, THEN conjunct2, THEN conjunct2, THEN conjunct1,
       THEN mp, OF h5]
    by simp
  have h6: "load_sts ?ld sts_paths [] = Inr (replicate 7 ?hr)"
    by (simp add: sts_paths_def sts_sample_def eval_nat_numeral)
  have c6: "\<exists>rowss. map (\<lambda>p. ?ld [p] ''test'') sts_paths = map Inr rowss
         \<and> list_all2 (\<lambda>obj r. getitem_text obj ''sentence1'' = Inr (text1 r)
                       \<and> getitem_text obj ''sentence2'' = Inr (text2 r)) (concat rowss)
              (replicate 7 ?hr)"
    by (rule text_fields_are_source_columns
          [THEN conjunct2, THEN conjunct2, THEN conjunct2, THEN conjunct2, THEN conjunct2,
           THEN conjunct1, THEN mp, OF h6])
  have h7: "load_nli_data True (Inr ?nrows) ?ld = Inr ([?nr], replicate 7 ?hr)"
    by (simp add: load_nli_data_def h6 nli_body_def nli_label_mapping_def strip_def isspace_def)
  have c7: "\<exists>trows. load_all_nli True trows [] = Inr [?nr]"
    using text_fields_are_source_columns
      [THEN conjunct2, THEN conjunct2, THEN conjunct2, THEN conjunct2, THEN conjunct2,
       THEN conjunct2, THEN conjunct1, THEN mp, OF h7]
    by (elim conjE exE) (rule exI)
  have h8: "csts_load_data ?ds = [?cr]"
    by (simp add: csts_load_data_def csts_step_def csts_init_def strip_def isspace_def Let_def)
  have c8: "''a man'' = strip ''a man ''"
    using text_fields_are_source_columns
      [THEN conjunct2, THEN conjunct2, THEN conjunct2, THEN conjunct2, THEN conjunct2,
       THEN conjunct2, THEN conjunct2, THEN conjunct1, of ?ds] h8
    by simp
  have h9: "load_csts_data (Inr (?ds, [], [])) = Inr ([?cr], [], [])"
    by (simp add: load_csts_data_def csts_load_data_def csts_step_def csts_init_def strip_def
          isspace_def Let_def)
  have c9: "\<exists>tr. [?cr] = csts_load_data tr"
    using text_fields_are_source_columns
      [THEN conjunct2, THEN conjunct2, THEN conjunct2, THEN conjunct2, THEN conjunct2,
       THEN conjunct2, THEN conjunct2, THEN conjunct2, THEN conjunct1, THEN mp, OF h9]
    by (elim conjE exE) (rule exI)
  show ?thesis
    by (rule conjI [OF h1 conjI [OF c1 conjI [OF h2 conjI [OF c2 conjI [OF h3 conjI [OF c3
          conjI [OF h4 conjI [OF c4 conjI [OF h5 conjI [OF c5 conjI [OF h6 conjI [OF c6
          conjI [OF h7 conjI [OF c7 conjI [OF h8 conjI [OF c8 conjI [OF h9 c9]]]]]]]]]]]]]]]]])
qed


end
